theory Spec2Isabelle
  imports
    Complex_Main
    "HOL-Library.Char_ord"
    "HOL-Library.List_Lexorder"
    "HOL-Library.Product_Lexorder"
    "HOL-Library.Sublist"
begin

section \<open>Data model of dashbord.py\<close>

text \<open>
  The dashboard reads one spreadsheet into a pandas DataFrame, normalises it
  (\<open>load_data\<close>), filters it (\<open>apply_filters\<close>) and aggregates the filtered rows
  (\<open>create_charts\<close>, \<open>create_tarefa_consolidada_chart\<close>).

  A DataFrame is modelled as its column labels (\<open>df.columns\<close>, in order) together
  with its rows in order. A missing cell (pandas NaN, NaT or None) is \<open>None\<close>.
  Descriptive columns hold text or are blank. An amount is a rational number, as
  every finite float64 is; the sums pandas computes over amounts round, so summation is
  a parameter of the aggregates below and is never taken to be exact.
\<close>

type_synonym label = "string option"

text \<open>A calendar date is (year, month, day); a timestamp is a date and the time of day
  in seconds. Both are ordered lexicographically, which is the chronological order.\<close>

type_synonym date = "nat \<times> nat \<times> nat"
type_synonym timestamp = "date \<times> nat"

definition dt_date :: "timestamp \<Rightarrow> date" where
  "dt_date t = fst t"

definition dt_year :: "timestamp \<Rightarrow> nat" where
  "dt_year t = fst (fst t)"

definition dt_month :: "timestamp \<Rightarrow> nat" where
  "dt_month t = fst (snd (fst t))"

text \<open>A cell of a date or amount column as \<open>pd.read_excel\<close> delivers it, before
  \<open>pd.to_datetime\<close> and \<open>pd.to_numeric\<close> are applied.\<close>

datatype cell = Blank | Text string | Number rat | Datetime timestamp

text \<open>A row of the sheet as read. The fields are addressed by the canonical name of
  the column they stand under; whether that column exists is decided by the header.\<close>

record sheet_row =
  xl_COD_FORNECEDOR :: label
  xl_CATEGORIA_SCANIA :: label
  xl_NOME_FORNECEDOR :: label
  xl_DATA_EMISSAO :: cell
  xl_DOCUMENTO :: label
  xl_TIPO_DOC :: label
  xl_PARCELAS :: label
  xl_DATA_VENCIMENTO :: cell
  xl_VALOR :: cell
  xl_TAREFA :: label
  xl_CONTA_TAREFA :: label
  xl_NOME_TAREFA :: label
  xl_TAREFA_CONSOLIDADA :: label
  xl_CATEGORIA :: label

record sheet =
  sheet_columns :: "string list"
  sheet_rows :: "sheet_row list"

text \<open>A row of the loaded DataFrame: dates are parsed, the amount is numeric, and the
  five derived columns are present.\<close>

record row =
  COD_FORNECEDOR :: label
  CATEGORIA_SCANIA :: label
  NOME_FORNECEDOR :: label
  DATA_EMISSAO :: "timestamp option"
  DOCUMENTO :: label
  TIPO_DOC :: label
  PARCELAS :: label
  DATA_VENCIMENTO :: "timestamp option"
  VALOR :: "rat option"
  TAREFA :: label
  CONTA_TAREFA :: label
  NOME_TAREFA :: label
  TAREFA_CONSOLIDADA :: label
  CATEGORIA :: label
  ANO :: "nat option"
  MES :: "nat option"
  MES_ANO :: "string option"
  MES_NOME :: "string option"
  ANO_MES :: "string option"

record frame =
  columns :: "string list"
  rows :: "row list"

text \<open>\<open>pd.DataFrame()\<close>: no columns and no rows.\<close>

definition DataFrame :: frame where
  "DataFrame = \<lparr>columns = [], rows = []\<rparr>"

text \<open>\<open>df.empty\<close>: some axis has length 0.\<close>

definition frame_empty :: "frame \<Rightarrow> bool" where
  "frame_empty df = (columns df = [] \<or> rows df = [])"

text \<open>\<open>col in df.columns\<close>.\<close>

definition has_column :: "string \<Rightarrow> frame \<Rightarrow> bool" where
  "has_column c df = (c \<in> set (columns df))"

section \<open>load\_data\<close>

definition column_mapping :: "(string \<times> string) list" where
  "column_mapping =
    [(''CODIGO FORNECEDOR'', ''COD_FORNECEDOR''),
     (''CATEGORIA SCANIA'', ''CATEGORIA_SCANIA''),
     (''NOME FORNECEDOR'', ''NOME_FORNECEDOR''),
     (''DATA EMISSIO'', ''DATA_EMISSAO''),
     (''N. DOCUMENTO'', ''DOCUMENTO''),
     (''TIPO DOC'', ''TIPO_DOC''),
     (''N.PARCELAS'', ''PARCELAS''),
     (''DATA VENCIMENTO'', ''DATA_VENCIMENTO''),
     (''VALOR'', ''VALOR''),
     (''N. TAREFA'', ''TAREFA''),
     (''N.CONTA TAREFA'', ''CONTA_TAREFA''),
     (''NOME TAREFA'', ''NOME_TAREFA''),
     (''TAREFA CONSOLIDADA'', ''TAREFA_CONSOLIDADA'')]"

text \<open>One turn of the renaming loop:
  \<open>if old_col in df.columns: df = df.rename(columns={old_col: new_col})\<close>.\<close>

definition rename_column :: "string \<times> string \<Rightarrow> string list \<Rightarrow> string list" where
  "rename_column m cols =
    (if fst m \<in> set cols then map (\<lambda>c. if c = fst m then snd m else c) cols else cols)"

definition renamed_columns :: "string list \<Rightarrow> string list" where
  "renamed_columns cols = fold rename_column column_mapping cols"

text \<open>\<open>df[c] = ...\<close> appends the label \<open>c\<close> when the frame has no such column and
  overwrites the column in place otherwise.\<close>

definition set_column :: "string \<Rightarrow> string list \<Rightarrow> string list" where
  "set_column c cols = (if c \<in> set cols then cols else cols @ [c])"

definition derived_columns :: "string list" where
  "derived_columns = [''ANO'', ''MES'', ''MES_ANO'', ''MES_NOME'', ''ANO_MES'']"

text \<open>\<open>strftime\<close>. \<open>%Y\<close> is the year in decimal without padding (the C library
  prints the year 999 as \<open>999\<close>); \<open>%m\<close> is two digits; \<open>%b\<close> is the abbreviated
  month name of the C locale.\<close>

definition digit :: "nat \<Rightarrow> char" where
  "digit d =
    (if d = 0 then CHR ''0'' else if d = 1 then CHR ''1'' else if d = 2 then CHR ''2''
     else if d = 3 then CHR ''3'' else if d = 4 then CHR ''4'' else if d = 5 then CHR ''5''
     else if d = 6 then CHR ''6'' else if d = 7 then CHR ''7'' else if d = 8 then CHR ''8''
     else CHR ''9'')"

fun fmt_Y :: "nat \<Rightarrow> string" where
  "fmt_Y y = (if y < 10 then [digit y] else fmt_Y (y div 10) @ [digit (y mod 10)])"

declare fmt_Y.simps [simp del]

definition fmt_m :: "nat \<Rightarrow> string" where
  "fmt_m m = [digit (m div 10 mod 10), digit (m mod 10)]"

definition fmt_b :: "nat \<Rightarrow> string" where
  "fmt_b m =
    (if m = 1 then ''Jan'' else if m = 2 then ''Feb'' else if m = 3 then ''Mar''
     else if m = 4 then ''Apr'' else if m = 5 then ''May'' else if m = 6 then ''Jun''
     else if m = 7 then ''Jul'' else if m = 8 then ''Aug'' else if m = 9 then ''Sep''
     else if m = 10 then ''Oct'' else if m = 11 then ''Nov'' else ''Dec'')"

definition strftime_Y_m :: "timestamp \<Rightarrow> string" where
  "strftime_Y_m t = fmt_Y (dt_year t) @ ''-'' @ fmt_m (dt_month t)"

definition strftime_b_Y :: "timestamp \<Rightarrow> string" where
  "strftime_b_Y t = fmt_b (dt_month t) @ ''/'' @ fmt_Y (dt_year t)"

text \<open>
  Exceptions the \<open>try\<close> block can raise: whatever \<open>pd.read_excel\<close> raises (file or
  sheet missing, unreadable file); what \<open>pd.to_datetime\<close> and \<open>pd.to_numeric\<close> raise
  (a \<open>ValueError\<close> or a \<open>TypeError\<close>); and the \<open>KeyError\<close> of
  \<open>df.dropna(subset=['VALOR'])\<close> on a frame without that column.
\<close>

datatype exn = ReadError string | ValueError string | TypeError string | KeyError "string list"

text \<open>
  \<open>to_datetime\<close> stands for \<open>pd.to_datetime(_, errors='coerce', dayfirst=True)\<close> on
  a column followed by the \<open>.dt\<close> access to the result, and \<open>to_numeric\<close> for
  \<open>pd.to_numeric(_, errors='coerce')\<close> on a column. Both are parameters of the model.
  Given the cells of the column, a conversion either raises or yields the conversion of
  each cell, which gives \<open>None\<close> (NaT, NaN) for a cell it cannot convert. The
  conversion of a cell may depend on the whole column (pandas infers one date format
  per column), and pandas raises on some columns in spite of \<open>errors='coerce'\<close>, for
  instance on texts with different UTC offsets.
\<close>

type_synonym 'a conversion = "cell list \<Rightarrow> exn + (cell \<Rightarrow> 'a option)"

text \<open>After the renaming a label can stand twice in the header (the sheet had the
  old and the new name). Then \<open>df[col]\<close> is a DataFrame, not a column.\<close>

definition duplicated :: "string \<Rightarrow> string list \<Rightarrow> bool" where
  "duplicated col cols = (1 < count_list cols col)"

text \<open>One turn of the loop over \<open>date_columns\<close>:
  \<open>if col in df.columns: df[col] = pd.to_datetime(df[col], ...)\<close>. The turn is
  skipped when the header lacks the column; \<open>pd.to_datetime\<close> raises on a DataFrame
  without the columns year, month and day.\<close>

definition convert_dates ::
  "timestamp conversion \<Rightarrow> string \<Rightarrow> (sheet_row \<Rightarrow> cell) \<Rightarrow> string list \<Rightarrow> sheet_row list
     \<Rightarrow> exn + (cell \<Rightarrow> timestamp option)"
where
  "convert_dates to_datetime col f cols rs =
    (if col \<notin> set cols then Inr (\<lambda>c. None)
     else if duplicated col cols then Inl (ValueError ''to assemble mappings'')
     else to_datetime (map f rs))"

text \<open>\<open>if 'VALOR' in df.columns: df['VALOR'] = pd.to_numeric(df['VALOR'], ...)\<close>;
  \<open>pd.to_numeric\<close> raises on a DataFrame.\<close>

definition convert_valor ::
  "rat conversion \<Rightarrow> string list \<Rightarrow> sheet_row list \<Rightarrow> exn + (cell \<Rightarrow> rat option)"
where
  "convert_valor to_numeric cols rs =
    (if ''VALOR'' \<notin> set cols then Inr (\<lambda>c. None)
     else if duplicated ''VALOR'' cols then Inl (TypeError ''arg must be a Series'')
     else to_numeric (map xl_VALOR rs))"

text \<open>
  The columns of one row after the conversions. \<open>emissao\<close>, \<open>vencimento\<close> and
  \<open>numeric\<close> are the conversions of a cell of the columns DATA\_EMISSAO,
  DATA\_VENCIMENTO and VALOR; \<open>cols\<close> is the header after renaming. A column the
  header lacks has blank cells.
\<close>

definition convert_row ::
  "(cell \<Rightarrow> timestamp option) \<Rightarrow> (cell \<Rightarrow> timestamp option) \<Rightarrow> (cell \<Rightarrow> rat option)
     \<Rightarrow> string list \<Rightarrow> sheet_row \<Rightarrow> row"
where
  "convert_row emissao vencimento numeric cols r =
    (let data_emissao = (if ''DATA_EMISSAO'' \<in> set cols
                         then emissao (xl_DATA_EMISSAO r) else None);
         data_vencimento = (if ''DATA_VENCIMENTO'' \<in> set cols
                            then vencimento (xl_DATA_VENCIMENTO r) else None)
     in \<lparr>COD_FORNECEDOR = xl_COD_FORNECEDOR r,
         CATEGORIA_SCANIA = xl_CATEGORIA_SCANIA r,
         NOME_FORNECEDOR = xl_NOME_FORNECEDOR r,
         DATA_EMISSAO = data_emissao,
         DOCUMENTO = xl_DOCUMENTO r,
         TIPO_DOC = xl_TIPO_DOC r,
         PARCELAS = xl_PARCELAS r,
         DATA_VENCIMENTO = data_vencimento,
         VALOR = (if ''VALOR'' \<in> set cols then numeric (xl_VALOR r) else None),
         TAREFA = xl_TAREFA r,
         CONTA_TAREFA = xl_CONTA_TAREFA r,
         NOME_TAREFA = xl_NOME_TAREFA r,
         TAREFA_CONSOLIDADA = xl_TAREFA_CONSOLIDADA r,
         CATEGORIA = xl_CATEGORIA r,
         ANO = map_option dt_year data_vencimento,
         MES = map_option dt_month data_vencimento,
         MES_ANO = map_option strftime_Y_m data_vencimento,
         MES_NOME = map_option strftime_b_Y data_vencimento,
         ANO_MES = map_option strftime_Y_m data_vencimento\<rparr>)"

text \<open>
  The \<open>try\<close> block after \<open>pd.read_excel\<close>, statement by statement: the renaming, the
  two date conversions, the derived columns, the numeric conversion, and
  \<open>dropna(subset=['VALOR'])\<close>. The first statement that raises ends the block.
\<close>

definition try_block :: "timestamp conversion \<Rightarrow> rat conversion \<Rightarrow> sheet \<Rightarrow> exn + frame" where
  "try_block to_datetime to_numeric sh =
    (let cols = renamed_columns (sheet_columns sh);
         rs = sheet_rows sh
     in case convert_dates to_datetime ''DATA_EMISSAO'' xl_DATA_EMISSAO cols rs of
          Inl e \<Rightarrow> Inl e
        | Inr emissao \<Rightarrow>
       (case convert_dates to_datetime ''DATA_VENCIMENTO'' xl_DATA_VENCIMENTO cols rs of
          Inl e \<Rightarrow> Inl e
        | Inr vencimento \<Rightarrow>
       (let cols' = (if ''DATA_VENCIMENTO'' \<in> set cols
                     then fold set_column derived_columns cols else cols)
        in case convert_valor to_numeric cols' rs of
          Inl e \<Rightarrow> Inl e
        | Inr numeric \<Rightarrow>
            if ''VALOR'' \<in> set cols'
            then Inr \<lparr>columns = cols',
                      rows = filter (\<lambda>r. VALOR r \<noteq> None)
                               (map (convert_row emissao vencimento numeric cols) rs)\<rparr>
            else Inl (KeyError [''VALOR'']))))"

text \<open>What the loader shows to the user: \<open>st.error(f"Erro ao carregar dados: {e}")\<close>
  carrying the exception, and the \<open>st.info\<close> list of things to verify.\<close>

datatype ui_msg = St_error exn | St_info_verifique

text \<open>The \<open>except Exception\<close> branch: the two messages, and \<open>pd.DataFrame()\<close>.\<close>

definition load_failed :: "exn \<Rightarrow> frame \<times> ui_msg list" where
  "load_failed e = (DataFrame, [St_error e, St_info_verifique])"

definition load_data ::
  "timestamp conversion \<Rightarrow> rat conversion \<Rightarrow> string + sheet \<Rightarrow> frame \<times> ui_msg list"
where
  "load_data to_datetime to_numeric read_excel =
    (case read_excel of
       Inl e \<Rightarrow> load_failed (ReadError e)
     | Inr sh \<Rightarrow>
        (case try_block to_datetime to_numeric sh of
           Inl e \<Rightarrow> load_failed e
         | Inr df \<Rightarrow> (df, [])))"

section \<open>create\_filters: limits and defaults\<close>

text \<open>\<open>Series.unique()\<close>: the distinct values in order of first appearance, a
  missing value included.\<close>

definition unique :: "'a list \<Rightarrow> 'a list" where
  "unique xs = rev (remdups (rev xs))"

text \<open>\<open>Series.min()\<close> and \<open>Series.max()\<close> skip missing values.\<close>

definition series_min :: "('a::linorder) option list \<Rightarrow> 'a option" where
  "series_min xs = (case List.map_filter id xs of [] \<Rightarrow> None | y # ys \<Rightarrow> Some (fold min ys y))"

definition series_max :: "('a::linorder) option list \<Rightarrow> 'a option" where
  "series_max xs = (case List.map_filter id xs of [] \<Rightarrow> None | y # ys \<Rightarrow> Some (fold max ys y))"

text \<open>The limits of the two date inputs. \<open>today\<close> is \<open>datetime.now().date()\<close>. When
  every due date is missing, \<open>min()\<close> is NaT and \<open>.date()\<close> has no result.\<close>

definition date_limits :: "date \<Rightarrow> frame \<Rightarrow> (date \<times> date) option" where
  "date_limits today df =
    (if has_column ''DATA_VENCIMENTO'' df \<and> \<not> frame_empty df
     then (case (series_min (map DATA_VENCIMENTO (rows df)),
                 series_max (map DATA_VENCIMENTO (rows df))) of
             (Some lo, Some hi) \<Rightarrow> Some (dt_date lo, dt_date hi)
           | _ \<Rightarrow> None)
     else Some ((2024, 1, 1), today))"

text \<open>The options of a multiselect, all of them selected:
  \<open>df[c].unique()\<close> when the column exists and the frame is not empty,
  \<open>[]\<close> otherwise.\<close>

definition all_selected :: "string \<Rightarrow> (row \<Rightarrow> label) \<Rightarrow> frame \<Rightarrow> label list" where
  "all_selected c f df =
    (if has_column c df \<and> \<not> frame_empty df then unique (map f (rows df)) else [])"

section \<open>apply\_filters\<close>

text \<open>The year selectbox: \<open>"Todos"\<close> or one of the values of the column ANO, which
  may be NaN.\<close>

datatype ano = Todos | Ano "nat option"

text \<open>Boolean-mask indexing \<open>df[mask]\<close>: the rows whose mask is true, in order.\<close>

definition mask :: "(row \<Rightarrow> bool) \<Rightarrow> frame \<Rightarrow> frame" where
  "mask p df = df\<lparr>rows := filter p (rows df)\<rparr>"

text \<open>\<open>(s.dt.date >= data_inicio) & (s.dt.date <= data_fim)\<close> on one cell: a
  comparison with NaT is false.\<close>

definition in_date_range :: "date \<Rightarrow> date \<Rightarrow> timestamp option \<Rightarrow> bool" where
  "in_date_range data_inicio data_fim v =
    (case v of None \<Rightarrow> False
     | Some t \<Rightarrow> data_inicio \<le> dt_date t \<and> dt_date t \<le> data_fim)"

text \<open>\<open>s == ano_selecionado\<close> on one cell: NaN equals nothing, itself included.\<close>

definition eq_ano :: "nat option \<Rightarrow> nat option \<Rightarrow> bool" where
  "eq_ano v sel = (case (v, sel) of (Some a, Some b) \<Rightarrow> a = b | _ \<Rightarrow> False)"

text \<open>\<open>s.isin(values)\<close> on one cell: membership; a missing cell is a member of a
  list that holds a missing value.\<close>

definition isin :: "label \<Rightarrow> label list \<Rightarrow> bool" where
  "isin v vals = (v \<in> set vals)"

definition filtro_data :: "date \<Rightarrow> date \<Rightarrow> frame \<Rightarrow> frame" where
  "filtro_data data_inicio data_fim df =
    (if has_column ''DATA_VENCIMENTO'' df \<and> \<not> frame_empty df
     then mask (\<lambda>r. in_date_range data_inicio data_fim (DATA_VENCIMENTO r)) df
     else df)"

definition filtro_ano :: "ano \<Rightarrow> frame \<Rightarrow> frame" where
  "filtro_ano ano_selecionado df =
    (case ano_selecionado of
       Todos \<Rightarrow> df
     | Ano a \<Rightarrow> if has_column ''ANO'' df then mask (\<lambda>r. eq_ano (ANO r) a) df else df)"

text \<open>The five multiselect filters share one shape:
  \<open>if values and c in df.columns: df = df[df[c].isin(values)]\<close>.
  An empty Python list is false.\<close>

definition filtro_isin :: "string \<Rightarrow> (row \<Rightarrow> label) \<Rightarrow> label list \<Rightarrow> frame \<Rightarrow> frame" where
  "filtro_isin c f vals df =
    (if vals \<noteq> [] \<and> has_column c df then mask (\<lambda>r. isin (f r) vals) df else df)"

definition apply_filters ::
  "frame \<Rightarrow> date \<Rightarrow> date \<Rightarrow> ano \<Rightarrow> label list \<Rightarrow> label list \<Rightarrow> label list
     \<Rightarrow> label list \<Rightarrow> label list \<Rightarrow> frame"
where
  "apply_filters df data_inicio data_fim ano_selecionado categorias_selecionadas categorias
     tipos_doc nomes_tarefa tarefas_consolidadas =
    (let df_filtrado = df;
         df_filtrado = filtro_data data_inicio data_fim df_filtrado;
         df_filtrado = filtro_ano ano_selecionado df_filtrado;
         df_filtrado = filtro_isin ''CATEGORIA_SCANIA'' CATEGORIA_SCANIA
                         categorias_selecionadas df_filtrado;
         df_filtrado = filtro_isin ''CATEGORIA'' CATEGORIA categorias df_filtrado;
         df_filtrado = filtro_isin ''TIPO_DOC'' TIPO_DOC tipos_doc df_filtrado;
         df_filtrado = filtro_isin ''NOME_TAREFA'' NOME_TAREFA nomes_tarefa df_filtrado;
         df_filtrado = filtro_isin ''TAREFA_CONSOLIDADA'' TAREFA_CONSOLIDADA
                         tarefas_consolidadas df_filtrado
     in df_filtrado)"

section \<open>Aggregate views\<close>

text \<open>
  \<open>Series.sum()\<close> and the \<open>sum()\<close> of a group skip missing values and add the
  others in float64 (or int64), which rounds (or wraps): the sum of a list of amounts
  is not in general their exact sum, and the two methods need not round alike. The
  summation is therefore a parameter \<open>soma\<close> of every aggregate, from the list of
  the amounts present, in row order, to the result.
\<close>

type_synonym summation = "rat list \<Rightarrow> rat"

text \<open>\<open>df_filtrado['VALOR'].sum()\<close> of \<open>create_metrics\<close>.\<close>

definition custo_total :: "summation \<Rightarrow> frame \<Rightarrow> rat" where
  "custo_total soma df_filtrado = soma (List.map_filter VALOR (rows df_filtrado))"

text \<open>\<open>df.groupby(keys)['VALOR'].sum().reset_index()\<close>: one entry per distinct key,
  in ascending key order (\<open>sort=True\<close>), with the sum of the amounts of the rows of
  that key. A row with a missing value in a key column belongs to no group
  (\<open>dropna=True\<close>): \<open>key\<close> is \<open>None\<close> for it.\<close>

definition groupby_sum ::
  "summation \<Rightarrow> (row \<Rightarrow> ('k::linorder) option) \<Rightarrow> row list \<Rightarrow> ('k \<times> rat) list"
where
  "groupby_sum soma key rs =
    map (\<lambda>k. (k, soma (List.map_filter VALOR (filter (\<lambda>r. key r = Some k) rs))))
      (sort (remdups (List.map_filter key rs)))"

text \<open>\<open>sort_values('VALOR', ascending=True)\<close> and
  \<open>sort_values('VALOR', ascending=False)\<close> on the entries of an aggregate. The
  model sorts stably; pandas does not fix the order of entries of equal value, and
  nothing below depends on it.\<close>

definition sort_values_asc :: "('k \<times> rat) list \<Rightarrow> ('k \<times> rat) list" where
  "sort_values_asc xs = sort_key snd xs"

definition sort_values_desc :: "('k \<times> rat) list \<Rightarrow> ('k \<times> rat) list" where
  "sort_values_desc xs = sort_key (\<lambda>p. - snd p) xs"

text \<open>The key of the monthly view: the four columns MES\_ANO, MES\_NOME, ANO, MES.\<close>

type_synonym mes_key = "string \<times> string \<times> nat \<times> nat"

definition chave_mensal :: "row \<Rightarrow> mes_key option" where
  "chave_mensal r =
    (case (MES_ANO r, MES_NOME r, ANO r, MES r) of
       (Some ma, Some mn, Some a, Some m) \<Rightarrow> Some (ma, mn, a, m)
     | _ \<Rightarrow> None)"

definition ano_mes :: "mes_key \<times> rat \<Rightarrow> nat \<times> nat" where
  "ano_mes e = (case e of ((ma, mn, a, m), v) \<Rightarrow> (a, m))"

text \<open>
  \<open>create_charts\<close>, first chart. The function returns at once on an empty frame. The
  guard tests two columns only; \<open>groupby\<close> raises \<open>KeyError\<close> at the first of its
  key columns the frame lacks. \<open>sort_values(['ANO', 'MES'])\<close> orders by year, then by
  month.
\<close>

definition df_mensal :: "summation \<Rightarrow> frame \<Rightarrow> exn + (mes_key \<times> rat) list option" where
  "df_mensal soma df_filtrado =
    (if frame_empty df_filtrado then Inr None
     else if has_column ''MES_ANO'' df_filtrado \<and> has_column ''VALOR'' df_filtrado then
       (case filter (\<lambda>c. \<not> has_column c df_filtrado) [''MES_ANO'', ''MES_NOME'', ''ANO'', ''MES''] of
          c # _ \<Rightarrow> Inl (KeyError [c])
        | [] \<Rightarrow> Inr (Some (sort_key ano_mes (groupby_sum soma chave_mensal (rows df_filtrado)))))
     else Inr None)"

text \<open>\<open>create_charts\<close>, the pie chart by CATEGORIA.\<close>

definition df_categoria :: "summation \<Rightarrow> frame \<Rightarrow> (string \<times> rat) list option" where
  "df_categoria soma df_filtrado =
    (if frame_empty df_filtrado then None
     else if has_column ''CATEGORIA'' df_filtrado \<and> has_column ''VALOR'' df_filtrado
     then Some (groupby_sum soma CATEGORIA (rows df_filtrado))
     else None)"

text \<open>\<open>create_charts\<close>, the horizontal bar chart by CATEGORIA\_SCANIA.\<close>

definition df_concessionaria :: "summation \<Rightarrow> frame \<Rightarrow> (string \<times> rat) list option" where
  "df_concessionaria soma df_filtrado =
    (if frame_empty df_filtrado then None
     else if has_column ''CATEGORIA_SCANIA'' df_filtrado \<and> has_column ''VALOR'' df_filtrado
     then Some (sort_values_asc (groupby_sum soma CATEGORIA_SCANIA (rows df_filtrado)))
     else None)"

text \<open>\<open>create_tarefa_consolidada_chart\<close>: \<open>head(15)\<close> keeps the first 15 entries.\<close>

definition df_tarefa :: "summation \<Rightarrow> frame \<Rightarrow> (string \<times> rat) list option" where
  "df_tarefa soma df_filtrado =
    (if has_column ''TAREFA_CONSOLIDADA'' df_filtrado \<and> has_column ''VALOR'' df_filtrado
        \<and> \<not> frame_empty df_filtrado
     then Some (take 15 (sort_values_desc (groupby_sum soma TAREFA_CONSOLIDADA (rows df_filtrado))))
     else None)"

section \<open>Example data\<close>

text \<open>A small sheet with the header of the real file. Its cells are already typed:
  the conversions accept a cell of the right kind and coerce every other cell to a
  missing value. The date conversion raises on a column that holds two texts with
  different UTC offsets, as \<open>pd.to_datetime\<close> does.\<close>

definition ex_cell_datetime :: "cell \<Rightarrow> timestamp option" where
  "ex_cell_datetime c = (case c of Datetime t \<Rightarrow> Some t | _ \<Rightarrow> None)"

definition ex_cell_numeric :: "cell \<Rightarrow> rat option" where
  "ex_cell_numeric c = (case c of Number x \<Rightarrow> Some x | _ \<Rightarrow> None)"

definition ex_to_datetime :: "timestamp conversion" where
  "ex_to_datetime col =
    (if Text ''01/02/2023 10:00 +01:00'' \<in> set col \<and> Text ''02/02/2023 10:00 +02:00'' \<in> set col
     then Inl (ValueError ''Mixed timezones detected'')
     else Inr ex_cell_datetime)"

definition ex_to_numeric :: "rat conversion" where
  "ex_to_numeric col = Inr ex_cell_numeric"

definition ex_row :: "cell \<Rightarrow> cell \<Rightarrow> cell \<Rightarrow> label \<Rightarrow> label \<Rightarrow> label \<Rightarrow> sheet_row" where
  "ex_row emissao vencimento v scania cat tarefa =
    \<lparr>xl_COD_FORNECEDOR = Some ''F01'', xl_CATEGORIA_SCANIA = scania,
     xl_NOME_FORNECEDOR = Some ''OFICINA'', xl_DATA_EMISSAO = emissao,
     xl_DOCUMENTO = Some ''1001'', xl_TIPO_DOC = Some ''NF'', xl_PARCELAS = Some ''1'',
     xl_DATA_VENCIMENTO = vencimento, xl_VALOR = v, xl_TAREFA = Some ''T1'',
     xl_CONTA_TAREFA = Some ''C1'', xl_NOME_TAREFA = Some ''REVISAO'',
     xl_TAREFA_CONSOLIDADA = tarefa, xl_CATEGORIA = cat\<rparr>"

definition ex_header :: "string list" where
  "ex_header =
    [''CODIGO FORNECEDOR'', ''CATEGORIA SCANIA'', ''NOME FORNECEDOR'', ''DATA EMISSIO'',
     ''N. DOCUMENTO'', ''TIPO DOC'', ''N.PARCELAS'', ''DATA VENCIMENTO'', ''VALOR'',
     ''N. TAREFA'', ''N.CONTA TAREFA'', ''NOME TAREFA'', ''TAREFA CONSOLIDADA'',
     ''CATEGORIA'']"

text \<open>Five rows: the second has a due date that does not parse, the third an amount
  that is not a number, the fifth no category.\<close>

definition ex_sheet :: sheet where
  "ex_sheet =
    \<lparr>sheet_columns = ex_header,
     sheet_rows =
      [ex_row (Datetime ((2022, 12, 1), 0)) (Datetime ((2023, 1, 10), 0)) (Number 100)
         (Some ''NORTE'') (Some ''MANUTENCAO'') (Some ''PECAS''),
       ex_row (Datetime ((2022, 12, 2), 0)) (Text ''a definir'') (Number 7)
         (Some ''NORTE'') (Some ''MANUTENCAO'') (Some ''PECAS''),
       ex_row (Datetime ((2022, 12, 3), 0)) (Datetime ((2023, 2, 5), 0)) (Text ''abc'')
         (Some ''SUL'') (Some ''SINISTRO'') (Some ''FUNILARIA''),
       ex_row (Datetime ((2023, 1, 20), 0)) (Datetime ((2023, 2, 20), 3600)) (Number 200)
         (Some ''SUL'') (Some ''SINISTRO'') (Some ''FUNILARIA''),
       ex_row (Datetime ((2023, 12, 15), 0)) (Datetime ((2024, 1, 15), 0)) (Number 50)
         (Some ''SUL'') None (Some ''MOTOR'')]\<rparr>"

definition ex_df :: frame where
  "ex_df = fst (load_data ex_to_datetime ex_to_numeric (Inr ex_sheet))"

text \<open>The same sheet without its second row: every due date parses.\<close>

definition ex_sheet_ok :: sheet where
  "ex_sheet_ok =
    \<lparr>sheet_columns = ex_header,
     sheet_rows =
      [ex_row (Datetime ((2022, 12, 1), 0)) (Datetime ((2023, 1, 10), 0)) (Number 100)
         (Some ''NORTE'') (Some ''MANUTENCAO'') (Some ''PECAS''),
       ex_row (Datetime ((2023, 1, 20), 0)) (Datetime ((2023, 2, 20), 3600)) (Number 200)
         (Some ''SUL'') (Some ''SINISTRO'') (Some ''FUNILARIA''),
       ex_row (Datetime ((2023, 12, 15), 0)) (Datetime ((2024, 1, 15), 0)) (Number 50)
         (Some ''SUL'') None (Some ''MOTOR'')]\<rparr>"

definition ex_df_ok :: frame where
  "ex_df_ok = fst (load_data ex_to_datetime ex_to_numeric (Inr ex_sheet_ok))"

text \<open>The loaded example filtered by the years 2023 and 2024, every multiselect empty.\<close>

definition ex_filtrado :: frame where
  "ex_filtrado = apply_filters ex_df (2023, 1, 1) (2024, 12, 31) Todos [] [] [] [] []"

text \<open>A sheet of two rows with numeric amounts whose issue dates are texts with
  different UTC offsets; the due date of the first row does not parse.\<close>

definition ex_sheet_tz :: sheet where
  "ex_sheet_tz =
    \<lparr>sheet_columns = ex_header,
     sheet_rows =
      [ex_row (Text ''01/02/2023 10:00 +01:00'') (Text ''a definir'') (Number 10)
         (Some ''NORTE'') (Some ''MANUTENCAO'') (Some ''PECAS''),
       ex_row (Text ''02/02/2023 10:00 +02:00'') (Datetime ((2023, 3, 1), 0)) (Number 20)
         (Some ''SUL'') (Some ''SINISTRO'') (Some ''MOTOR'')]\<rparr>"

text \<open>A sheet whose header has the due-date column under both names.\<close>

definition ex_sheet_dup :: sheet where
  "ex_sheet_dup =
    \<lparr>sheet_columns = [''DATA VENCIMENTO'', ''DATA_VENCIMENTO'', ''VALOR''], sheet_rows = []\<rparr>"

text \<open>A sheet without an amount column.\<close>

definition ex_sheet_sem_valor :: sheet where
  "ex_sheet_sem_valor = \<lparr>sheet_columns = [''DATA VENCIMENTO'', ''CATEGORIA''], sheet_rows = []\<rparr>"

text \<open>A loaded frame of sixteen rows with sixteen different consolidated tasks and
  sixteen different amounts.\<close>

definition ex_tarefas :: "(string \<times> rat) list" where
  "ex_tarefas =
    [(''TA'', 1), (''TB'', 2), (''TC'', 3), (''TD'', 4), (''TE'', 5), (''TF'', 6),
     (''TG'', 7), (''TH'', 8), (''TI'', 9), (''TJ'', 10), (''TK'', 11), (''TL'', 12),
     (''TM'', 13), (''TN'', 14), (''TO'', 15), (''TP'', 16)]"

definition ex_df16 :: frame where
  "ex_df16 = fst (load_data ex_to_datetime ex_to_numeric (Inr
     \<lparr>sheet_columns = ex_header,
      sheet_rows = map (\<lambda>(t, v). ex_row Blank (Datetime ((2023, 3, 1), 0)) (Number v)
                               (Some ''NORTE'') (Some ''MANUTENCAO'') (Some t)) ex_tarefas\<rparr>))"

text \<open>The header of the loaded examples, and the loaded form of an example row.\<close>

definition ex_columns :: "string list" where
  "ex_columns =
    [''COD_FORNECEDOR'', ''CATEGORIA_SCANIA'', ''NOME_FORNECEDOR'', ''DATA_EMISSAO'',
     ''DOCUMENTO'', ''TIPO_DOC'', ''PARCELAS'', ''DATA_VENCIMENTO'', ''VALOR'',
     ''TAREFA'', ''CONTA_TAREFA'', ''NOME_TAREFA'', ''TAREFA_CONSOLIDADA'', ''CATEGORIA'',
     ''ANO'', ''MES'', ''MES_ANO'', ''MES_NOME'', ''ANO_MES'']"

definition ex_loaded ::
  "timestamp option \<Rightarrow> timestamp option \<Rightarrow> rat option \<Rightarrow> label \<Rightarrow> label \<Rightarrow> label \<Rightarrow> row"
where
  "ex_loaded emissao vencimento v scania cat tarefa =
    \<lparr>COD_FORNECEDOR = Some ''F01'', CATEGORIA_SCANIA = scania,
     NOME_FORNECEDOR = Some ''OFICINA'', DATA_EMISSAO = emissao,
     DOCUMENTO = Some ''1001'', TIPO_DOC = Some ''NF'', PARCELAS = Some ''1'',
     DATA_VENCIMENTO = vencimento, VALOR = v, TAREFA = Some ''T1'',
     CONTA_TAREFA = Some ''C1'', NOME_TAREFA = Some ''REVISAO'',
     TAREFA_CONSOLIDADA = tarefa, CATEGORIA = cat,
     ANO = map_option dt_year vencimento, MES = map_option dt_month vencimento,
     MES_ANO = map_option strftime_Y_m vencimento,
     MES_NOME = map_option strftime_b_Y vencimento,
     ANO_MES = map_option strftime_Y_m vencimento\<rparr>"

section \<open>Auxiliary lemmas\<close>

subsection \<open>The filters as one mask\<close>

lemma mask_mask: "mask p (mask q df) = mask (\<lambda>r. q r \<and> p r) df"
  by (simp add: mask_def)

lemma mask_True: "mask (\<lambda>r. True) df = df"
  by (simp add: mask_def)

lemma mask_cong: "(\<And>r. r \<in> set (rows df) \<Longrightarrow> p r = q r) \<Longrightarrow> mask p df = mask q df"
  by (simp add: mask_def cong: filter_cong)

lemma mask_id: "(\<And>r. r \<in> set (rows df) \<Longrightarrow> p r) \<Longrightarrow> mask p df = df"
  using mask_cong [of df p "\<lambda>r. True"] by (simp add: mask_True)

lemma has_column_mask: "has_column c (mask p df) = has_column c df"
  by (simp add: has_column_def mask_def)

lemma rows_mask: "rows (mask p df) = filter p (rows df)"
  by (simp add: mask_def)

lemma columns_mask: "columns (mask p df) = columns df"
  by (simp add: mask_def)

lemma filtro_data_mask:
  "filtro_data lo hi df =
     mask (\<lambda>r. has_column ''DATA_VENCIMENTO'' df \<and> \<not> frame_empty df
                 \<longrightarrow> in_date_range lo hi (DATA_VENCIMENTO r)) df"
  by (auto simp: filtro_data_def mask_True)

lemma filtro_ano_mask:
  "filtro_ano a df =
     mask (\<lambda>r. case a of Todos \<Rightarrow> True | Ano y \<Rightarrow> has_column ''ANO'' df \<longrightarrow> eq_ano (ANO r) y) df"
  by (cases a) (simp_all add: filtro_ano_def mask_True)

lemma filtro_isin_mask:
  "filtro_isin c f vals df = mask (\<lambda>r. vals \<noteq> [] \<and> has_column c df \<longrightarrow> isin (f r) vals) df"
  by (simp add: filtro_isin_def mask_True)

text \<open>The seven steps of \<open>apply_filters\<close> test their guards on a frame with the
  columns of \<open>df\<close>, so the whole function is one mask over \<open>df\<close>.\<close>

lemma apply_filters_mask:
  "apply_filters df lo hi a cs c t n tc =
     mask (\<lambda>r. (has_column ''DATA_VENCIMENTO'' df \<and> \<not> frame_empty df
                   \<longrightarrow> in_date_range lo hi (DATA_VENCIMENTO r))
              \<and> (case a of Todos \<Rightarrow> True | Ano y \<Rightarrow> has_column ''ANO'' df \<longrightarrow> eq_ano (ANO r) y)
              \<and> (cs \<noteq> [] \<and> has_column ''CATEGORIA_SCANIA'' df \<longrightarrow> isin (CATEGORIA_SCANIA r) cs)
              \<and> (c \<noteq> [] \<and> has_column ''CATEGORIA'' df \<longrightarrow> isin (CATEGORIA r) c)
              \<and> (t \<noteq> [] \<and> has_column ''TIPO_DOC'' df \<longrightarrow> isin (TIPO_DOC r) t)
              \<and> (n \<noteq> [] \<and> has_column ''NOME_TAREFA'' df \<longrightarrow> isin (NOME_TAREFA r) n)
              \<and> (tc \<noteq> [] \<and> has_column ''TAREFA_CONSOLIDADA'' df
                   \<longrightarrow> isin (TAREFA_CONSOLIDADA r) tc)) df"
  unfolding apply_filters_def Let_def
  unfolding filtro_data_mask filtro_ano_mask filtro_isin_mask has_column_mask mask_mask
  by (rule mask_cong) auto

subsection \<open>The loader in closed form\<close>

lemma set_fold_set_column: "set (fold set_column ds cols) = set cols \<union> set ds"
  by (induction ds arbitrary: cols) (auto simp: set_column_def)

lemma count_fold_set_column:
  "c \<notin> set ds \<Longrightarrow> count_list (fold set_column ds cols) c = count_list cols c"
  by (induction ds arbitrary: cols) (auto simp: set_column_def)

lemma VALOR_not_derived: "''VALOR'' \<notin> set derived_columns"
  by (simp add: derived_columns_def)

lemma VALOR_in_derived:
  "''VALOR'' \<in> set (if b then fold set_column derived_columns cols else cols)
     \<longleftrightarrow> ''VALOR'' \<in> set cols"
  by (simp add: set_fold_set_column VALOR_not_derived)

lemma duplicated_VALOR_derived:
  "duplicated ''VALOR'' (if b then fold set_column derived_columns cols else cols)
     \<longleftrightarrow> duplicated ''VALOR'' cols"
  by (simp add: duplicated_def count_fold_set_column VALOR_not_derived)

lemma convert_valor_derived:
  "convert_valor tn (if b then fold set_column derived_columns cols else cols) rs
     = convert_valor tn cols rs"
  unfolding convert_valor_def
  by (simp only: VALOR_in_derived duplicated_VALOR_derived)

lemma VALOR_convert_row:
  "''VALOR'' \<in> set cols \<Longrightarrow> VALOR (convert_row em ve nu cols s) = nu (xl_VALOR s)"
  by (simp add: convert_row_def Let_def)

lemma DATA_VENCIMENTO_convert_row:
  "''DATA_VENCIMENTO'' \<in> set cols
    \<Longrightarrow> DATA_VENCIMENTO (convert_row em ve nu cols s) = ve (xl_DATA_VENCIMENTO s)"
  by (simp add: convert_row_def Let_def)

lemma derived_convert_row:
  "ANO (convert_row em ve nu cols s) = map_option dt_year (DATA_VENCIMENTO (convert_row em ve nu cols s))"
  "MES (convert_row em ve nu cols s) = map_option dt_month (DATA_VENCIMENTO (convert_row em ve nu cols s))"
  "MES_ANO (convert_row em ve nu cols s) = map_option strftime_Y_m (DATA_VENCIMENTO (convert_row em ve nu cols s))"
  "MES_NOME (convert_row em ve nu cols s) = map_option strftime_b_Y (DATA_VENCIMENTO (convert_row em ve nu cols s))"
  "ANO_MES (convert_row em ve nu cols s) = map_option strftime_Y_m (DATA_VENCIMENTO (convert_row em ve nu cols s))"
  by (simp_all add: convert_row_def Let_def)

text \<open>The frame the \<open>try\<close> block returns when no statement raises.\<close>

lemma try_block_Inr:
  assumes "convert_dates td ''DATA_EMISSAO'' xl_DATA_EMISSAO
             (renamed_columns (sheet_columns sh)) (sheet_rows sh) = Inr em"
    and "convert_dates td ''DATA_VENCIMENTO'' xl_DATA_VENCIMENTO
             (renamed_columns (sheet_columns sh)) (sheet_rows sh) = Inr ve"
    and "convert_valor tn (renamed_columns (sheet_columns sh)) (sheet_rows sh) = Inr nu"
    and "''VALOR'' \<in> set (renamed_columns (sheet_columns sh))"
  shows "try_block td tn sh =
    Inr \<lparr>columns = (if ''DATA_VENCIMENTO'' \<in> set (renamed_columns (sheet_columns sh))
                     then fold set_column derived_columns (renamed_columns (sheet_columns sh))
                     else renamed_columns (sheet_columns sh)),
         rows = map (convert_row em ve nu (renamed_columns (sheet_columns sh)))
                  (filter (\<lambda>s. nu (xl_VALOR s) \<noteq> None) (sheet_rows sh))\<rparr>"
  using assms
  by (simp add: try_block_def Let_def convert_valor_derived VALOR_in_derived filter_map o_def
        VALOR_convert_row)

text \<open>Conversely, a frame is returned only when no statement raised.\<close>

lemma try_block_InrD:
  assumes "try_block td tn sh = Inr df"
  shows "\<exists>em ve nu.
      convert_dates td ''DATA_EMISSAO'' xl_DATA_EMISSAO
          (renamed_columns (sheet_columns sh)) (sheet_rows sh) = Inr em
    \<and> convert_dates td ''DATA_VENCIMENTO'' xl_DATA_VENCIMENTO
          (renamed_columns (sheet_columns sh)) (sheet_rows sh) = Inr ve
    \<and> convert_valor tn (renamed_columns (sheet_columns sh)) (sheet_rows sh) = Inr nu
    \<and> ''VALOR'' \<in> set (renamed_columns (sheet_columns sh))"
  using assms
  by (auto simp: try_block_def Let_def convert_valor_derived VALOR_in_derived
        split: sum.splits if_splits)

lemma load_data_Inr:
  "load_data td tn (Inr sh) =
     (case try_block td tn sh of Inl e \<Rightarrow> load_failed e | Inr df \<Rightarrow> (df, []))"
  by (simp add: load_data_def)

text \<open>A loaded frame that has a row comes from a \<open>try\<close> block that did not raise.\<close>

lemma loaded_row_try_block:
  assumes "r \<in> set (rows (fst (load_data td tn (Inr sh))))"
  shows "try_block td tn sh = Inr (fst (load_data td tn (Inr sh)))"
  using assms
  by (cases "try_block td tn sh") (simp_all add: load_data_Inr load_failed_def DataFrame_def)

lemma convert_dates_present:
  assumes "convert_dates td col f cols rs = Inr g" and "col \<in> set cols"
  shows "td (map f rs) = Inr g"
  using assms by (simp add: convert_dates_def split: if_splits)

lemma load_data_KeyError:
  assumes "''VALOR'' \<notin> set (renamed_columns (sheet_columns sh))"
    and "convert_dates td ''DATA_EMISSAO'' xl_DATA_EMISSAO
             (renamed_columns (sheet_columns sh)) (sheet_rows sh) = Inr em"
    and "convert_dates td ''DATA_VENCIMENTO'' xl_DATA_VENCIMENTO
             (renamed_columns (sheet_columns sh)) (sheet_rows sh) = Inr ve"
  shows "load_data td tn (Inr sh)
           = (DataFrame, [St_error (KeyError [''VALOR'']), St_info_verifique])"
  using assms
  by (simp add: load_data_Inr try_block_def Let_def convert_valor_derived VALOR_in_derived
        convert_valor_def load_failed_def)

subsection \<open>Rows without a due date\<close>

lemma frame_not_empty:
  "has_column c df \<Longrightarrow> r \<in> set (rows df) \<Longrightarrow> \<not> frame_empty df"
  by (auto simp: has_column_def frame_empty_def)

lemma apply_filters_drops_NaT:
  assumes "has_column ''DATA_VENCIMENTO'' df" and "DATA_VENCIMENTO r = None"
  shows "r \<notin> set (rows (apply_filters df lo hi a cs c t n tc))"
proof
  assume m: "r \<in> set (rows (apply_filters df lo hi a cs c t n tc))"
  then have "r \<in> set (rows df)"
    by (simp add: apply_filters_mask rows_mask)
  with assms(1) have "\<not> frame_empty df"
    by (rule frame_not_empty)
  with m assms(1) have "in_date_range lo hi (DATA_VENCIMENTO r)"
    by (simp add: apply_filters_mask rows_mask)
  with assms(2) show False
    by (simp add: in_date_range_def)
qed

subsection \<open>Evaluation of the examples\<close>

lemma ex_renamed: "renamed_columns ex_header =
  [''COD_FORNECEDOR'', ''CATEGORIA_SCANIA'', ''NOME_FORNECEDOR'', ''DATA_EMISSAO'',
   ''DOCUMENTO'', ''TIPO_DOC'', ''PARCELAS'', ''DATA_VENCIMENTO'', ''VALOR'',
   ''TAREFA'', ''CONTA_TAREFA'', ''NOME_TAREFA'', ''TAREFA_CONSOLIDADA'', ''CATEGORIA'']"
  by (simp add: renamed_columns_def column_mapping_def rename_column_def ex_header_def)

lemma ex_row_sel:
  "xl_VALOR (ex_row e d v s c t) = v"
  "xl_DATA_VENCIMENTO (ex_row e d v s c t) = d"
  "xl_DATA_EMISSAO (ex_row e d v s c t) = e"
  by (simp_all add: ex_row_def)

lemma ex_convert:
  "convert_row ex_cell_datetime ex_cell_datetime ex_cell_numeric (renamed_columns ex_header)
       (ex_row e d v s c t)
     = ex_loaded (ex_cell_datetime e) (ex_cell_datetime d) (ex_cell_numeric v) s c t"
  by (simp add: ex_renamed convert_row_def ex_row_def ex_loaded_def Let_def)

lemma ex_not_duplicated:
  "\<not> duplicated ''DATA_EMISSAO'' (renamed_columns ex_header)"
  "\<not> duplicated ''DATA_VENCIMENTO'' (renamed_columns ex_header)"
  "\<not> duplicated ''VALOR'' (renamed_columns ex_header)"
  by (simp_all add: ex_renamed duplicated_def)

lemma ex_in_header:
  "''DATA_EMISSAO'' \<in> set (renamed_columns ex_header)"
  "''DATA_VENCIMENTO'' \<in> set (renamed_columns ex_header)"
  "''VALOR'' \<in> set (renamed_columns ex_header)"
  by (simp_all add: ex_renamed)

lemma ex_convert_dates:
  "convert_dates ex_to_datetime ''DATA_EMISSAO'' f (renamed_columns ex_header) ss
     = ex_to_datetime (map f ss)"
  "convert_dates ex_to_datetime ''DATA_VENCIMENTO'' f (renamed_columns ex_header) ss
     = ex_to_datetime (map f ss)"
  by (simp_all add: convert_dates_def ex_not_duplicated ex_in_header)

lemma ex_convert_valor:
  "convert_valor ex_to_numeric (renamed_columns ex_header) ss = Inr ex_cell_numeric"
  by (simp add: convert_valor_def ex_not_duplicated ex_in_header ex_to_numeric_def)

lemma ex_columns_eq:
  "fold set_column derived_columns (renamed_columns ex_header) = ex_columns"
  by (simp add: ex_renamed derived_columns_def set_column_def ex_columns_def)

lemma ex_load:
  assumes "ex_to_datetime (map xl_DATA_EMISSAO ss) = Inr ex_cell_datetime"
    and "ex_to_datetime (map xl_DATA_VENCIMENTO ss) = Inr ex_cell_datetime"
  shows "load_data ex_to_datetime ex_to_numeric (Inr \<lparr>sheet_columns = ex_header, sheet_rows = ss\<rparr>)
     = (\<lparr>columns = ex_columns,
         rows = map (convert_row ex_cell_datetime ex_cell_datetime ex_cell_numeric
                       (renamed_columns ex_header))
                  (filter (\<lambda>s. ex_cell_numeric (xl_VALOR s) \<noteq> None) ss)\<rparr>, [])"
proof -
  let ?sh = "\<lparr>sheet_columns = ex_header, sheet_rows = ss\<rparr>"
  have "try_block ex_to_datetime ex_to_numeric ?sh =
    Inr \<lparr>columns = (if ''DATA_VENCIMENTO'' \<in> set (renamed_columns (sheet_columns ?sh))
                     then fold set_column derived_columns (renamed_columns (sheet_columns ?sh))
                     else renamed_columns (sheet_columns ?sh)),
         rows = map (convert_row ex_cell_datetime ex_cell_datetime ex_cell_numeric
                       (renamed_columns (sheet_columns ?sh)))
                  (filter (\<lambda>s. ex_cell_numeric (xl_VALOR s) \<noteq> None) (sheet_rows ?sh))\<rparr>"
    by (rule try_block_Inr) (simp_all add: ex_convert_dates ex_convert_valor ex_in_header assms)
  then show ?thesis
    by (simp add: load_data_Inr ex_in_header ex_columns_eq)
qed

lemma ex_sheet_dates:
  "ex_to_datetime (map xl_DATA_EMISSAO (sheet_rows ex_sheet)) = Inr ex_cell_datetime"
  "ex_to_datetime (map xl_DATA_VENCIMENTO (sheet_rows ex_sheet)) = Inr ex_cell_datetime"
  by (simp_all add: ex_sheet_def ex_to_datetime_def ex_row_sel)

lemma ex_sheet_ok_dates:
  "ex_to_datetime (map xl_DATA_EMISSAO (sheet_rows ex_sheet_ok)) = Inr ex_cell_datetime"
  "ex_to_datetime (map xl_DATA_VENCIMENTO (sheet_rows ex_sheet_ok)) = Inr ex_cell_datetime"
  by (simp_all add: ex_sheet_ok_def ex_to_datetime_def ex_row_sel)

lemma ex_load_ex_sheet:
  "load_data ex_to_datetime ex_to_numeric (Inr ex_sheet) =
    (\<lparr>columns = ex_columns, rows =
     [ex_loaded (Some ((2022, 12, 1), 0)) (Some ((2023, 1, 10), 0)) (Some 100)
        (Some ''NORTE'') (Some ''MANUTENCAO'') (Some ''PECAS''),
      ex_loaded (Some ((2022, 12, 2), 0)) None (Some 7)
        (Some ''NORTE'') (Some ''MANUTENCAO'') (Some ''PECAS''),
      ex_loaded (Some ((2023, 1, 20), 0)) (Some ((2023, 2, 20), 3600)) (Some 200)
        (Some ''SUL'') (Some ''SINISTRO'') (Some ''FUNILARIA''),
      ex_loaded (Some ((2023, 12, 15), 0)) (Some ((2024, 1, 15), 0)) (Some 50)
        (Some ''SUL'') None (Some ''MOTOR'')]\<rparr>, [])"
proof -
  have "ex_sheet = \<lparr>sheet_columns = ex_header, sheet_rows = sheet_rows ex_sheet\<rparr>"
    by (simp add: ex_sheet_def)
  then have "load_data ex_to_datetime ex_to_numeric (Inr ex_sheet)
     = (\<lparr>columns = ex_columns,
         rows = map (convert_row ex_cell_datetime ex_cell_datetime ex_cell_numeric
                       (renamed_columns ex_header))
                  (filter (\<lambda>s. ex_cell_numeric (xl_VALOR s) \<noteq> None) (sheet_rows ex_sheet))\<rparr>, [])"
    using ex_load [OF ex_sheet_dates] by simp
  then show ?thesis
    by (simp add: ex_sheet_def ex_row_sel ex_convert ex_cell_numeric_def ex_cell_datetime_def)
qed

lemma ex_df_eq:
  "ex_df = \<lparr>columns = ex_columns, rows =
     [ex_loaded (Some ((2022, 12, 1), 0)) (Some ((2023, 1, 10), 0)) (Some 100)
        (Some ''NORTE'') (Some ''MANUTENCAO'') (Some ''PECAS''),
      ex_loaded (Some ((2022, 12, 2), 0)) None (Some 7)
        (Some ''NORTE'') (Some ''MANUTENCAO'') (Some ''PECAS''),
      ex_loaded (Some ((2023, 1, 20), 0)) (Some ((2023, 2, 20), 3600)) (Some 200)
        (Some ''SUL'') (Some ''SINISTRO'') (Some ''FUNILARIA''),
      ex_loaded (Some ((2023, 12, 15), 0)) (Some ((2024, 1, 15), 0)) (Some 50)
        (Some ''SUL'') None (Some ''MOTOR'')]\<rparr>"
  by (simp add: ex_df_def ex_load_ex_sheet)

lemma ex_df_ok_eq:
  "ex_df_ok = \<lparr>columns = ex_columns, rows =
     [ex_loaded (Some ((2022, 12, 1), 0)) (Some ((2023, 1, 10), 0)) (Some 100)
        (Some ''NORTE'') (Some ''MANUTENCAO'') (Some ''PECAS''),
      ex_loaded (Some ((2023, 1, 20), 0)) (Some ((2023, 2, 20), 3600)) (Some 200)
        (Some ''SUL'') (Some ''SINISTRO'') (Some ''FUNILARIA''),
      ex_loaded (Some ((2023, 12, 15), 0)) (Some ((2024, 1, 15), 0)) (Some 50)
        (Some ''SUL'') None (Some ''MOTOR'')]\<rparr>"
proof -
  have "ex_sheet_ok = \<lparr>sheet_columns = ex_header, sheet_rows = sheet_rows ex_sheet_ok\<rparr>"
    by (simp add: ex_sheet_ok_def)
  then have "ex_df_ok = \<lparr>columns = ex_columns,
         rows = map (convert_row ex_cell_datetime ex_cell_datetime ex_cell_numeric
                       (renamed_columns ex_header))
                  (filter (\<lambda>s. ex_cell_numeric (xl_VALOR s) \<noteq> None) (sheet_rows ex_sheet_ok))\<rparr>"
    using ex_load [OF ex_sheet_ok_dates] by (simp add: ex_df_ok_def)
  then show ?thesis
    by (simp add: ex_sheet_ok_def ex_row_sel ex_convert ex_cell_numeric_def ex_cell_datetime_def)
qed

lemma ex_df16_eq:
  "ex_df16 = \<lparr>columns = ex_columns, rows =
     map (\<lambda>(t, v). ex_loaded None (Some ((2023, 3, 1), 0)) (Some v)
                 (Some ''NORTE'') (Some ''MANUTENCAO'') (Some t)) ex_tarefas\<rparr>"
  unfolding ex_df16_def
  by (subst ex_load)
     (simp_all add: ex_tarefas_def ex_to_datetime_def ex_row_sel ex_convert
        ex_cell_numeric_def ex_cell_datetime_def)

lemma load_data_ex_sheet_sem_valor:
  "load_data ex_to_datetime ex_to_numeric (Inr ex_sheet_sem_valor)
     = (DataFrame, [St_error (KeyError [''VALOR'']), St_info_verifique])"
proof -
  have c: "renamed_columns (sheet_columns ex_sheet_sem_valor) = [''DATA_VENCIMENTO'', ''CATEGORIA'']"
    by (simp add: ex_sheet_sem_valor_def renamed_columns_def column_mapping_def rename_column_def)
  have r: "sheet_rows ex_sheet_sem_valor = []"
    by (simp add: ex_sheet_sem_valor_def)
  show ?thesis
    by (rule load_data_KeyError [where em = "\<lambda>c. None" and ve = ex_cell_datetime])
       (simp_all add: c r convert_dates_def duplicated_def ex_to_datetime_def)
qed

text \<open>After the renaming the header of this sheet has DATA\_VENCIMENTO twice, and
  the conversion of the due dates raises.\<close>

lemma load_data_ex_sheet_dup:
  "load_data ex_to_datetime ex_to_numeric (Inr ex_sheet_dup)
     = (DataFrame, [St_error (ValueError ''to assemble mappings''), St_info_verifique])"
proof -
  have c: "renamed_columns (sheet_columns ex_sheet_dup)
             = [''DATA_VENCIMENTO'', ''DATA_VENCIMENTO'', ''VALOR'']"
    by (simp add: ex_sheet_dup_def renamed_columns_def column_mapping_def rename_column_def)
  show ?thesis
    by (simp add: load_data_Inr try_block_def Let_def c convert_dates_def duplicated_def
          load_failed_def)
qed

text \<open>On the sheet with two UTC offsets the conversion of the issue dates raises.\<close>

lemma load_data_ex_sheet_tz:
  "load_data ex_to_datetime ex_to_numeric (Inr ex_sheet_tz)
     = (DataFrame, [St_error (ValueError ''Mixed timezones detected''), St_info_verifique])"
  by (simp add: load_data_Inr try_block_def Let_def ex_sheet_tz_def ex_convert_dates
        ex_to_datetime_def ex_row_sel load_failed_def)

lemma ex_loaded_sel:
  "CATEGORIA_SCANIA (ex_loaded e d v s c t) = s"
  "CATEGORIA (ex_loaded e d v s c t) = c"
  "TAREFA_CONSOLIDADA (ex_loaded e d v s c t) = t"
  "TIPO_DOC (ex_loaded e d v s c t) = Some ''NF''"
  "NOME_TAREFA (ex_loaded e d v s c t) = Some ''REVISAO''"
  "DATA_VENCIMENTO (ex_loaded e d v s c t) = d"
  "DATA_EMISSAO (ex_loaded e d v s c t) = e"
  "VALOR (ex_loaded e d v s c t) = v"
  "ANO (ex_loaded e d v s c t) = map_option dt_year d"
  "MES (ex_loaded e d v s c t) = map_option dt_month d"
  "MES_ANO (ex_loaded e d v s c t) = map_option strftime_Y_m d"
  "MES_NOME (ex_loaded e d v s c t) = map_option strftime_b_Y d"
  "ANO_MES (ex_loaded e d v s c t) = map_option strftime_Y_m d"
  by (simp_all add: ex_loaded_def)

lemma ex_loaded_eq:
  "ex_loaded e d v s c t = ex_loaded e' d' v' s' c' t'
     \<longleftrightarrow> e = e' \<and> d = d' \<and> v = v' \<and> s = s' \<and> c = c' \<and> t = t'"
  by (auto simp: ex_loaded_def)

lemma ex_has_column:
  "has_column ''DATA_VENCIMENTO'' \<lparr>columns = ex_columns, rows = rs\<rparr>"
  "has_column ''VALOR'' \<lparr>columns = ex_columns, rows = rs\<rparr>"
  "has_column ''ANO'' \<lparr>columns = ex_columns, rows = rs\<rparr>"
  "has_column ''MES'' \<lparr>columns = ex_columns, rows = rs\<rparr>"
  "has_column ''MES_ANO'' \<lparr>columns = ex_columns, rows = rs\<rparr>"
  "has_column ''MES_NOME'' \<lparr>columns = ex_columns, rows = rs\<rparr>"
  "has_column ''CATEGORIA'' \<lparr>columns = ex_columns, rows = rs\<rparr>"
  "has_column ''CATEGORIA_SCANIA'' \<lparr>columns = ex_columns, rows = rs\<rparr>"
  "has_column ''TIPO_DOC'' \<lparr>columns = ex_columns, rows = rs\<rparr>"
  "has_column ''NOME_TAREFA'' \<lparr>columns = ex_columns, rows = rs\<rparr>"
  "has_column ''TAREFA_CONSOLIDADA'' \<lparr>columns = ex_columns, rows = rs\<rparr>"
  by (simp_all add: has_column_def ex_columns_def)

lemma ex_frame_empty:
  "frame_empty \<lparr>columns = ex_columns, rows = rs\<rparr> = (rs = [])"
  by (simp add: frame_empty_def ex_columns_def)

lemma ex_filtrado_eq:
  "ex_filtrado = \<lparr>columns = ex_columns, rows =
     [ex_loaded (Some ((2022, 12, 1), 0)) (Some ((2023, 1, 10), 0)) (Some 100)
        (Some ''NORTE'') (Some ''MANUTENCAO'') (Some ''PECAS''),
      ex_loaded (Some ((2023, 1, 20), 0)) (Some ((2023, 2, 20), 3600)) (Some 200)
        (Some ''SUL'') (Some ''SINISTRO'') (Some ''FUNILARIA''),
      ex_loaded (Some ((2023, 12, 15), 0)) (Some ((2024, 1, 15), 0)) (Some 50)
        (Some ''SUL'') None (Some ''MOTOR'')]\<rparr>"
  unfolding ex_filtrado_def ex_df_eq apply_filters_mask
  by (simp add: ex_has_column ex_frame_empty mask_def ex_loaded_sel in_date_range_def dt_date_def)

subsection \<open>Selections that hold every value\<close>

lemma set_unique: "set (unique xs) = set xs"
  by (simp add: unique_def)

lemma isin_all_selected:
  "r \<in> set (rows df) \<Longrightarrow>
     (all_selected c f df \<noteq> [] \<and> has_column c df \<longrightarrow> isin (f r) (all_selected c f df))"
  by (auto simp: all_selected_def isin_def set_unique split: if_splits)

subsection \<open>Minimum and maximum of a column\<close>

lemma set_map_filter_id: "set (List.map_filter id xs) = {t. Some t \<in> set xs}"
  by (induction xs) (auto split: option.splits)

lemma series_min_le:
  assumes "series_min xs = Some m" and "Some t \<in> set xs"
  shows "m \<le> t"
proof -
  from assms(1) obtain y ys where l: "List.map_filter id xs = y # ys" and m: "m = fold min ys y"
    by (auto simp: series_min_def split: list.splits)
  have "m = Min (set (y # ys))"
    by (simp only: m Min.set_eq_fold)
  moreover have "t \<in> set (y # ys)"
    using assms(2) set_map_filter_id [of xs] l by auto
  ultimately show ?thesis
    by (simp only: Min_le [OF finite_set])
qed

lemma series_max_ge:
  assumes "series_max xs = Some m" and "Some t \<in> set xs"
  shows "t \<le> m"
proof -
  from assms(1) obtain y ys where l: "List.map_filter id xs = y # ys" and m: "m = fold max ys y"
    by (auto simp: series_max_def split: list.splits)
  have "m = Max (set (y # ys))"
    by (simp only: m Max.set_eq_fold)
  moreover have "t \<in> set (y # ys)"
    using assms(2) set_map_filter_id [of xs] l by auto
  ultimately show ?thesis
    by (simp only: Max_ge [OF finite_set])
qed

lemma series_min_Some: "Some t \<in> set xs \<Longrightarrow> \<exists>m. series_min xs = Some m"
  using set_map_filter_id [of xs] by (auto simp: series_min_def split: list.splits)

lemma series_max_Some: "Some t \<in> set xs \<Longrightarrow> \<exists>m. series_max xs = Some m"
  using set_map_filter_id [of xs] by (auto simp: series_max_def split: list.splits)

lemma fst_mono_lex:
  fixes a b :: "'a::order \<times> 'b::order"
  shows "a \<le> b \<Longrightarrow> fst a \<le> fst b"
  by (auto simp: less_eq_prod_def)

lemma dt_date_mono: "a \<le> b \<Longrightarrow> dt_date a \<le> dt_date b"
  unfolding dt_date_def by (rule fst_mono_lex)

lemma date_limits_cover:
  assumes g: "has_column ''DATA_VENCIMENTO'' df" "\<not> frame_empty df"
    and all: "\<And>r. r \<in> set (rows df) \<Longrightarrow> DATA_VENCIMENTO r \<noteq> None"
  shows "\<exists>lo hi. date_limits today df = Some (lo, hi)
           \<and> (\<forall>r\<in>set (rows df). in_date_range lo hi (DATA_VENCIMENTO r))"
proof -
  let ?col = "map DATA_VENCIMENTO (rows df)"
  from g(2) obtain r0 where r0: "r0 \<in> set (rows df)"
    by (cases "rows df") (auto simp: frame_empty_def)
  with all obtain t0 where "DATA_VENCIMENTO r0 = Some t0"
    by fastforce
  with r0 have "Some t0 \<in> set ?col"
    by force
  then obtain lo hi where lo: "series_min ?col = Some lo" and hi: "series_max ?col = Some hi"
    using series_min_Some series_max_Some by blast
  have "in_date_range (dt_date lo) (dt_date hi) (DATA_VENCIMENTO r)" if "r \<in> set (rows df)" for r
  proof -
    from all that obtain t where t: "DATA_VENCIMENTO r = Some t"
      by fastforce
    with that have "Some t \<in> set ?col"
      by force
    then have "lo \<le> t" "t \<le> hi"
      using series_min_le [OF lo] series_max_ge [OF hi] by blast+
    then show ?thesis
      by (simp add: t in_date_range_def dt_date_mono)
  qed
  moreover have "date_limits today df = Some (dt_date lo, dt_date hi)"
    using g lo hi by (simp add: date_limits_def)
  ultimately show ?thesis
    by blast
qed

subsection \<open>Sums over groups\<close>

lemma sum_list_select:
  fixes a :: rat
  assumes "distinct ks"
  shows "sum_list (map (\<lambda>k. if x = Some k then a else 0) ks)
           = (if x \<in> Some ` set ks then a else 0)"
  using assms by (induction ks) auto

lemma sum_list_groups:
  fixes f :: "'r \<Rightarrow> rat"
  assumes "distinct ks"
  shows "sum_list (map (\<lambda>k. sum_list (map f (filter (\<lambda>r. key r = Some k) rs))) ks)
           = sum_list (map f (filter (\<lambda>r. key r \<in> Some ` set ks) rs))"
proof (induction rs)
  case Nil
  show ?case by simp
next
  case (Cons r rs)
  have "sum_list (map (\<lambda>k. sum_list (map f (filter (\<lambda>r. key r = Some k) (r # rs)))) ks)
          = sum_list (map (\<lambda>k. (if key r = Some k then f r else 0)
                              + sum_list (map f (filter (\<lambda>r. key r = Some k) rs))) ks)"
    by (rule arg_cong [where f = sum_list], rule map_cong) auto
  also have "\<dots> = sum_list (map (\<lambda>k. if key r = Some k then f r else 0) ks)
                  + sum_list (map (\<lambda>k. sum_list (map f (filter (\<lambda>r. key r = Some k) rs))) ks)"
    by (simp add: sum_list_addf)
  also have "\<dots> = (if key r \<in> Some ` set ks then f r else 0)
                  + sum_list (map f (filter (\<lambda>r. key r \<in> Some ` set ks) rs))"
    by (simp only: sum_list_select [OF assms] Cons.IH)
  also have "\<dots> = sum_list (map f (filter (\<lambda>r. key r \<in> Some ` set ks) (r # rs)))"
    by simp
  finally show ?case .
qed

lemma set_map_filter: "set (List.map_filter key rs) = {k. \<exists>r\<in>set rs. key r = Some k}"
  by (induction rs) (auto split: option.splits)

lemma sum_list_map_filter:
  fixes g :: "'r \<Rightarrow> rat option"
  shows "sum_list (List.map_filter g xs)
           = sum_list (map (\<lambda>x. case g x of None \<Rightarrow> 0 | Some v \<Rightarrow> v) xs)"
  by (induction xs) (auto split: option.splits)

lemma map_fst_groupby_sum:
  "map fst (groupby_sum soma key rs) = sort (remdups (List.map_filter key rs))"
  by (simp add: groupby_sum_def o_def)

lemma groupby_sum_entries:
  "groupby_sum soma key rs
     = map (\<lambda>k. (k, soma (List.map_filter VALOR (filter (\<lambda>r. key r = Some k) rs))))
         (map fst (groupby_sum soma key rs))"
  by (simp add: map_fst_groupby_sum) (simp add: groupby_sum_def)

lemma sum_groupby_sum:
  "sum_list (map snd (groupby_sum sum_list key rs))
     = sum_list (List.map_filter VALOR (filter (\<lambda>r. key r \<noteq> None) rs))"
proof -
  let ?ks = "sort (remdups (List.map_filter key rs))"
  let ?f = "\<lambda>r. case VALOR r of None \<Rightarrow> 0 | Some v \<Rightarrow> v"
  have d: "distinct ?ks"
    by simp
  have "sum_list (map snd (groupby_sum sum_list key rs))
          = sum_list (map (\<lambda>k. sum_list (map ?f (filter (\<lambda>r. key r = Some k) rs))) ?ks)"
    by (simp add: groupby_sum_def o_def sum_list_map_filter)
  also have "\<dots> = sum_list (map ?f (filter (\<lambda>r. key r \<in> Some ` set ?ks) rs))"
    by (rule sum_list_groups [OF d])
  also have "filter (\<lambda>r. key r \<in> Some ` set ?ks) rs = filter (\<lambda>r. key r \<noteq> None) rs"
    by (rule filter_cong) (auto simp: set_map_filter)
  finally show ?thesis
    by (simp add: sum_list_map_filter)
qed

subsection \<open>Sorted aggregates\<close>

lemma sorted_sort_values_asc: "sorted (map snd (sort_values_asc xs))"
  by (simp add: sort_values_asc_def)

lemma sorted_sort_values_desc: "sorted_wrt (\<lambda>a b. b \<le> a) (map snd (sort_values_desc xs))"
proof -
  have "sorted (map (\<lambda>p. - snd p) (sort_values_desc xs))"
    by (simp add: sort_values_desc_def)
  then show ?thesis
    by (simp add: sorted_map sorted_wrt_map)
qed

lemmas ex_eval =
  ex_has_column ex_frame_empty ex_loaded_sel groupby_sum_def custo_total_def
  sort_values_asc_def sort_values_desc_def chave_mensal_def ano_mes_def
  dt_year_def dt_month_def strftime_Y_m_def strftime_b_Y_def fmt_Y.simps fmt_m_def fmt_b_def
  digit_def

section \<open>Properties of the loader\<close>

text \<open>
  Claim C9. When reading the file raises an error, whatever it is, \<open>load_data\<close>
  returns the empty frame (no columns, no rows) and shows the error with the exception
  in it, followed by the list of things to verify: the exception does not leave the
  function.
\<close>

theorem load_data_read_error:
  "load_data to_datetime to_numeric (Inl e) =
     (\<lparr>columns = [], rows = []\<rparr>, [St_error (ReadError e), St_info_verifique])"
  by (simp add: load_data_def load_failed_def DataFrame_def)

text \<open>
  Claim C8 as stated fails: the two rows of this sheet have numeric amounts, yet the
  loaded frame is empty and an error is shown, because the conversion of the issue
  dates raises inside the \<open>try\<close> block.
\<close>

theorem load_data_drops_non_numeric_counterexample:
  "ex_to_numeric (map xl_VALOR (sheet_rows ex_sheet_tz)) = Inr ex_cell_numeric
   \<and> map (\<lambda>s. ex_cell_numeric (xl_VALOR s)) (sheet_rows ex_sheet_tz) = [Some 10, Some 20]
   \<and> load_data ex_to_datetime ex_to_numeric (Inr ex_sheet_tz)
       = (\<lparr>columns = [], rows = []\<rparr>,
          [St_error (ValueError ''Mixed timezones detected''), St_info_verifique])"
  by (simp add: load_data_ex_sheet_tz DataFrame_def)
     (simp add: ex_to_numeric_def ex_sheet_tz_def ex_row_sel ex_cell_numeric_def)

text \<open>
  Claim C8, as amended. When no other statement of the loader raises (the header has
  one amount column, and the conversions of the two date columns and of the amount
  column return), the amount is coerced by \<open>to_numeric\<close> and the loaded frame holds,
  in the order of the sheet, exactly the rows whose amount is numeric: a row is dropped
  if and only if the coercion of its amount gives a missing value. No error is shown:
  the load completes.
\<close>

theorem load_data_drops_non_numeric:
  assumes "''VALOR'' \<in> set (renamed_columns (sheet_columns sh))"
    and "convert_dates to_datetime ''DATA_EMISSAO'' xl_DATA_EMISSAO
           (renamed_columns (sheet_columns sh)) (sheet_rows sh) = Inr emissao"
    and "convert_dates to_datetime ''DATA_VENCIMENTO'' xl_DATA_VENCIMENTO
           (renamed_columns (sheet_columns sh)) (sheet_rows sh) = Inr vencimento"
    and "convert_valor to_numeric (renamed_columns (sheet_columns sh)) (sheet_rows sh)
           = Inr numeric"
  shows "rows (fst (load_data to_datetime to_numeric (Inr sh))) =
           map (convert_row emissao vencimento numeric (renamed_columns (sheet_columns sh)))
             (filter (\<lambda>s. numeric (xl_VALOR s) \<noteq> None) (sheet_rows sh))
         \<and> snd (load_data to_datetime to_numeric (Inr sh)) = []"
  using try_block_Inr [OF assms(2) assms(3) assms(4) assms(1)]
  by (simp add: load_data_Inr)

theorem load_data_drops_non_numeric_witness:
  "''VALOR'' \<in> set (renamed_columns (sheet_columns ex_sheet))
   \<and> map xl_VALOR (sheet_rows ex_sheet)
       = [Number 100, Number 7, Text ''abc'', Number 200, Number 50]
   \<and> rows (fst (load_data ex_to_datetime ex_to_numeric (Inr ex_sheet))) =
       [ex_loaded (Some ((2022, 12, 1), 0)) (Some ((2023, 1, 10), 0)) (Some 100)
          (Some ''NORTE'') (Some ''MANUTENCAO'') (Some ''PECAS''),
        ex_loaded (Some ((2022, 12, 2), 0)) None (Some 7)
          (Some ''NORTE'') (Some ''MANUTENCAO'') (Some ''PECAS''),
        ex_loaded (Some ((2023, 1, 20), 0)) (Some ((2023, 2, 20), 3600)) (Some 200)
          (Some ''SUL'') (Some ''SINISTRO'') (Some ''FUNILARIA''),
        ex_loaded (Some ((2023, 12, 15), 0)) (Some ((2024, 1, 15), 0)) (Some 50)
          (Some ''SUL'') None (Some ''MOTOR'')]
   \<and> snd (load_data ex_to_datetime ex_to_numeric (Inr ex_sheet)) = []"
proof -
  have c: "renamed_columns (sheet_columns ex_sheet) = renamed_columns ex_header"
    by (simp add: ex_sheet_def)
  have v: "''VALOR'' \<in> set (renamed_columns (sheet_columns ex_sheet))"
    by (simp add: c ex_in_header)
  have e: "convert_dates ex_to_datetime ''DATA_EMISSAO'' xl_DATA_EMISSAO
             (renamed_columns (sheet_columns ex_sheet)) (sheet_rows ex_sheet)
           = Inr ex_cell_datetime"
    by (simp add: c ex_convert_dates ex_sheet_dates)
  have d: "convert_dates ex_to_datetime ''DATA_VENCIMENTO'' xl_DATA_VENCIMENTO
             (renamed_columns (sheet_columns ex_sheet)) (sheet_rows ex_sheet)
           = Inr ex_cell_datetime"
    by (simp add: c ex_convert_dates ex_sheet_dates)
  have n: "convert_valor ex_to_numeric (renamed_columns (sheet_columns ex_sheet))
             (sheet_rows ex_sheet) = Inr ex_cell_numeric"
    by (simp add: c ex_convert_valor)
  have x: "map xl_VALOR (sheet_rows ex_sheet)
       = [Number 100, Number 7, Text ''abc'', Number 200, Number 50]"
    by (simp add: ex_sheet_def ex_row_sel)
  from load_data_drops_non_numeric [OF v e d n] v x show ?thesis
    by (simp add: c) (simp add: ex_sheet_def ex_row_sel ex_convert ex_cell_numeric_def
          ex_cell_datetime_def)
qed

text \<open>
  Claim C7. In a loaded frame with a due-date column, every row comes from a sheet row
  whose DATA VENCIMENTO cell, converted with the rest of its column, gives its due
  date, and its year, month, year-month key and month label are computed from that due
  date alone; the issue date plays no part.
\<close>

theorem derived_fields_from_due_date:
  assumes "r \<in> set (rows (fst (load_data to_datetime to_numeric (Inr sh))))"
    and "''DATA_VENCIMENTO'' \<in> set (columns (fst (load_data to_datetime to_numeric (Inr sh))))"
  shows "\<exists>s vencimento. s \<in> set (sheet_rows sh)
           \<and> to_datetime (map xl_DATA_VENCIMENTO (sheet_rows sh)) = Inr vencimento
           \<and> DATA_VENCIMENTO r = vencimento (xl_DATA_VENCIMENTO s)
           \<and> ANO r = map_option dt_year (vencimento (xl_DATA_VENCIMENTO s))
           \<and> MES r = map_option dt_month (vencimento (xl_DATA_VENCIMENTO s))
           \<and> MES_ANO r = map_option strftime_Y_m (vencimento (xl_DATA_VENCIMENTO s))
           \<and> MES_NOME r = map_option strftime_b_Y (vencimento (xl_DATA_VENCIMENTO s))
           \<and> ANO_MES r = map_option strftime_Y_m (vencimento (xl_DATA_VENCIMENTO s))"
proof -
  let ?cols = "renamed_columns (sheet_columns sh)"
  let ?df = "fst (load_data to_datetime to_numeric (Inr sh))"
  have t: "try_block to_datetime to_numeric sh = Inr ?df"
    using assms(1) by (rule loaded_row_try_block)
  from try_block_InrD [OF t] obtain em ve nu where
    em: "convert_dates to_datetime ''DATA_EMISSAO'' xl_DATA_EMISSAO ?cols (sheet_rows sh) = Inr em"
    and ve: "convert_dates to_datetime ''DATA_VENCIMENTO'' xl_DATA_VENCIMENTO ?cols (sheet_rows sh) = Inr ve"
    and nu: "convert_valor to_numeric ?cols (sheet_rows sh) = Inr nu"
    and v: "''VALOR'' \<in> set ?cols"
    by blast
  have df: "?df = \<lparr>columns = (if ''DATA_VENCIMENTO'' \<in> set ?cols
                                then fold set_column derived_columns ?cols else ?cols),
                    rows = map (convert_row em ve nu ?cols)
                             (filter (\<lambda>s. nu (xl_VALOR s) \<noteq> None) (sheet_rows sh))\<rparr>"
    using try_block_Inr [OF em ve nu v] t by simp
  have "''DATA_VENCIMENTO'' \<notin> set derived_columns"
    by (simp add: derived_columns_def)
  then have dv: "''DATA_VENCIMENTO'' \<in> set ?cols"
    using assms(2) by (subst (asm) df) (auto simp: set_fold_set_column split: if_splits)
  from assms(1) obtain s where s: "s \<in> set (sheet_rows sh)"
      and r: "r = convert_row em ve nu ?cols s"
    by (subst (asm) df) auto
  have c: "to_datetime (map xl_DATA_VENCIMENTO (sheet_rows sh)) = Inr ve"
    using ve dv by (rule convert_dates_present)
  have "DATA_VENCIMENTO r = ve (xl_DATA_VENCIMENTO s)"
    using dv r by (simp add: DATA_VENCIMENTO_convert_row)
  with s r c show ?thesis
    by (auto simp: derived_convert_row)
qed

theorem derived_fields_from_due_date_witness:
  "ex_loaded (Some ((2023, 1, 20), 0)) (Some ((2023, 2, 20), 3600)) (Some 200)
      (Some ''SUL'') (Some ''SINISTRO'') (Some ''FUNILARIA'')
     \<in> set (rows (fst (load_data ex_to_datetime ex_to_numeric (Inr ex_sheet))))
   \<and> ''DATA_VENCIMENTO'' \<in> set (columns (fst (load_data ex_to_datetime ex_to_numeric (Inr ex_sheet))))
   \<and> (\<exists>s. s \<in> set (sheet_rows ex_sheet)
        \<and> xl_DATA_EMISSAO s = Datetime ((2023, 1, 20), 0)
        \<and> xl_DATA_VENCIMENTO s = Datetime ((2023, 2, 20), 3600)
        \<and> ANO (ex_loaded (Some ((2023, 1, 20), 0)) (Some ((2023, 2, 20), 3600)) (Some 200)
                 (Some ''SUL'') (Some ''SINISTRO'') (Some ''FUNILARIA'')) = Some 2023
        \<and> MES (ex_loaded (Some ((2023, 1, 20), 0)) (Some ((2023, 2, 20), 3600)) (Some 200)
                 (Some ''SUL'') (Some ''SINISTRO'') (Some ''FUNILARIA'')) = Some 2
        \<and> MES_ANO (ex_loaded (Some ((2023, 1, 20), 0)) (Some ((2023, 2, 20), 3600)) (Some 200)
                 (Some ''SUL'') (Some ''SINISTRO'') (Some ''FUNILARIA'')) = Some ''2023-02''
        \<and> MES_NOME (ex_loaded (Some ((2023, 1, 20), 0)) (Some ((2023, 2, 20), 3600)) (Some 200)
                 (Some ''SUL'') (Some ''SINISTRO'') (Some ''FUNILARIA'')) = Some ''Feb/2023'')"
proof -
  let ?r = "ex_loaded (Some ((2023, 1, 20), 0)) (Some ((2023, 2, 20), 3600)) (Some 200)
      (Some ''SUL'') (Some ''SINISTRO'') (Some ''FUNILARIA'')"
  have a: "?r \<in> set (rows (fst (load_data ex_to_datetime ex_to_numeric (Inr ex_sheet))))"
    by (simp add: ex_load_ex_sheet)
  have b: "''DATA_VENCIMENTO'' \<in> set (columns (fst (load_data ex_to_datetime ex_to_numeric (Inr ex_sheet))))"
    by (simp add: ex_load_ex_sheet ex_columns_def)
  from derived_fields_from_due_date [OF a b] obtain s ve where s: "s \<in> set (sheet_rows ex_sheet)"
    and c: "ex_to_datetime (map xl_DATA_VENCIMENTO (sheet_rows ex_sheet)) = Inr ve"
    and d: "DATA_VENCIMENTO ?r = ve (xl_DATA_VENCIMENTO s)"
    and f: "ANO ?r = map_option dt_year (ve (xl_DATA_VENCIMENTO s))"
      "MES ?r = map_option dt_month (ve (xl_DATA_VENCIMENTO s))"
      "MES_ANO ?r = map_option strftime_Y_m (ve (xl_DATA_VENCIMENTO s))"
      "MES_NOME ?r = map_option strftime_b_Y (ve (xl_DATA_VENCIMENTO s))"
    by blast
  from c have ve: "ve = ex_cell_datetime"
    by (simp add: ex_sheet_dates)
  from s d have s': "s = ex_row (Datetime ((2023, 1, 20), 0)) (Datetime ((2023, 2, 20), 3600)) (Number 200)
         (Some ''SUL'') (Some ''SINISTRO'') (Some ''FUNILARIA'')"
    unfolding ve by (auto simp: ex_sheet_def ex_loaded_sel ex_row_sel ex_cell_datetime_def)
  have "ANO ?r = Some 2023" "MES ?r = Some 2" "MES_ANO ?r = Some ''2023-02''"
       "MES_NOME ?r = Some ''Feb/2023''"
    unfolding f s' ve
    by (simp_all add: ex_row_sel ex_cell_datetime_def dt_year_def dt_month_def strftime_Y_m_def
          strftime_b_Y_def fmt_Y.simps fmt_m_def fmt_b_def digit_def)
  with a b s show ?thesis
    unfolding s' by (auto simp: ex_row_sel)
qed

text \<open>
  Claim C10 as stated fails: the first row of this sheet has a due date that does not
  parse and a numeric amount, yet it is not in the loaded frame, which is empty
  because the conversion of the issue dates raises.
\<close>

theorem unparsed_due_date_loaded_never_filtered_counterexample:
  "ex_row (Text ''01/02/2023 10:00 +01:00'') (Text ''a definir'') (Number 10)
      (Some ''NORTE'') (Some ''MANUTENCAO'') (Some ''PECAS'') \<in> set (sheet_rows ex_sheet_tz)
   \<and> ex_to_datetime (map xl_DATA_VENCIMENTO (sheet_rows ex_sheet_tz)) = Inr ex_cell_datetime
   \<and> ex_cell_datetime (Text ''a definir'') = None
   \<and> ex_cell_numeric (Number 10) = Some 10
   \<and> rows (fst (load_data ex_to_datetime ex_to_numeric (Inr ex_sheet_tz))) = []"
  by (simp add: load_data_ex_sheet_tz DataFrame_def)
     (simp add: ex_sheet_tz_def ex_to_datetime_def ex_row_sel ex_cell_datetime_def
        ex_cell_numeric_def)

text \<open>
  Claim C10, as amended. When no statement of the loader raises, a sheet row whose due
  date does not parse but whose amount is numeric is in the loaded frame, with a
  missing due date, and is in no result of \<open>apply_filters\<close> on that frame, whatever
  the start date, the end date and the other filter arguments.
\<close>

theorem unparsed_due_date_loaded_never_filtered:
  assumes "''VALOR'' \<in> set (renamed_columns (sheet_columns sh))"
    and "''DATA_VENCIMENTO'' \<in> set (renamed_columns (sheet_columns sh))"
    and "convert_dates to_datetime ''DATA_EMISSAO'' xl_DATA_EMISSAO
           (renamed_columns (sheet_columns sh)) (sheet_rows sh) = Inr emissao"
    and "convert_dates to_datetime ''DATA_VENCIMENTO'' xl_DATA_VENCIMENTO
           (renamed_columns (sheet_columns sh)) (sheet_rows sh) = Inr vencimento"
    and "convert_valor to_numeric (renamed_columns (sheet_columns sh)) (sheet_rows sh)
           = Inr numeric"
    and "s \<in> set (sheet_rows sh)"
    and "vencimento (xl_DATA_VENCIMENTO s) = None"
    and "numeric (xl_VALOR s) \<noteq> None"
    and "df = fst (load_data to_datetime to_numeric (Inr sh))"
    and "r = convert_row emissao vencimento numeric (renamed_columns (sheet_columns sh)) s"
  shows "r \<in> set (rows df) \<and> DATA_VENCIMENTO r = None
         \<and> r \<notin> set (rows (apply_filters df data_inicio data_fim ano_selecionado
                             categorias_selecionadas categorias tipos_doc nomes_tarefa
                             tarefas_consolidadas))"
proof -
  have t: "load_data to_datetime to_numeric (Inr sh) =
      (\<lparr>columns = (if ''DATA_VENCIMENTO'' \<in> set (renamed_columns (sheet_columns sh))
                     then fold set_column derived_columns (renamed_columns (sheet_columns sh))
                     else renamed_columns (sheet_columns sh)),
         rows = map (convert_row emissao vencimento numeric (renamed_columns (sheet_columns sh)))
                  (filter (\<lambda>s. numeric (xl_VALOR s) \<noteq> None) (sheet_rows sh))\<rparr>, [])"
    using try_block_Inr [OF assms(3) assms(4) assms(5) assms(1)] by (simp add: load_data_Inr)
  have a: "r \<in> set (rows df)"
    using assms(6,8,9,10) by (simp add: t)
  have b: "DATA_VENCIMENTO r = None"
    using assms(2,7,10) by (simp add: DATA_VENCIMENTO_convert_row)
  have "has_column ''DATA_VENCIMENTO'' df"
    using assms(2,9) by (simp add: t has_column_def set_fold_set_column)
  from apply_filters_drops_NaT [OF this b] a b show ?thesis
    by simp
qed

theorem unparsed_due_date_loaded_never_filtered_witness:
  "ex_row (Datetime ((2022, 12, 2), 0)) (Text ''a definir'') (Number 7)
      (Some ''NORTE'') (Some ''MANUTENCAO'') (Some ''PECAS'') \<in> set (sheet_rows ex_sheet)
   \<and> snd (load_data ex_to_datetime ex_to_numeric (Inr ex_sheet)) = []
   \<and> ex_cell_datetime (Text ''a definir'') = None
   \<and> ex_cell_numeric (Number 7) = Some 7
   \<and> ex_loaded (Some ((2022, 12, 2), 0)) None (Some 7)
        (Some ''NORTE'') (Some ''MANUTENCAO'') (Some ''PECAS'') \<in> set (rows ex_df)
   \<and> ex_loaded (Some ((2022, 12, 2), 0)) None (Some 7)
        (Some ''NORTE'') (Some ''MANUTENCAO'') (Some ''PECAS'')
       \<notin> set (rows (apply_filters ex_df (2023, 1, 1) (2024, 12, 31) Todos [] [] [] [] []))"
proof -
  let ?s = "ex_row (Datetime ((2022, 12, 2), 0)) (Text ''a definir'') (Number 7)
      (Some ''NORTE'') (Some ''MANUTENCAO'') (Some ''PECAS'')"
  have c: "renamed_columns (sheet_columns ex_sheet) = renamed_columns ex_header"
    by (simp add: ex_sheet_def)
  have 1: "''VALOR'' \<in> set (renamed_columns (sheet_columns ex_sheet))"
    and 2: "''DATA_VENCIMENTO'' \<in> set (renamed_columns (sheet_columns ex_sheet))"
    by (simp_all add: c ex_in_header)
  have 3: "convert_dates ex_to_datetime ''DATA_EMISSAO'' xl_DATA_EMISSAO
             (renamed_columns (sheet_columns ex_sheet)) (sheet_rows ex_sheet)
           = Inr ex_cell_datetime"
    and 4: "convert_dates ex_to_datetime ''DATA_VENCIMENTO'' xl_DATA_VENCIMENTO
             (renamed_columns (sheet_columns ex_sheet)) (sheet_rows ex_sheet)
           = Inr ex_cell_datetime"
    by (simp_all add: c ex_convert_dates ex_sheet_dates)
  have 5: "convert_valor ex_to_numeric (renamed_columns (sheet_columns ex_sheet))
             (sheet_rows ex_sheet) = Inr ex_cell_numeric"
    by (simp add: c ex_convert_valor)
  have 6: "?s \<in> set (sheet_rows ex_sheet)"
    by (simp add: ex_sheet_def)
  have 7: "ex_cell_datetime (xl_DATA_VENCIMENTO ?s) = None"
    and 8: "ex_cell_numeric (xl_VALOR ?s) \<noteq> None"
    by (simp_all add: ex_row_sel ex_cell_datetime_def ex_cell_numeric_def)
  have 9: "ex_df = fst (load_data ex_to_datetime ex_to_numeric (Inr ex_sheet))"
    by (simp add: ex_df_def)
  have 10: "ex_loaded (Some ((2022, 12, 2), 0)) None (Some 7)
        (Some ''NORTE'') (Some ''MANUTENCAO'') (Some ''PECAS'')
      = convert_row ex_cell_datetime ex_cell_datetime ex_cell_numeric
          (renamed_columns (sheet_columns ex_sheet)) ?s"
    by (simp add: c ex_convert ex_cell_datetime_def ex_cell_numeric_def)
  from unparsed_due_date_loaded_never_filtered [OF 1 2 3 4 5 6 7 8 9 10,
      of "(2023, 1, 1)" "(2024, 12, 31)" Todos "[]" "[]" "[]" "[]" "[]"] 6
  show ?thesis
    by (simp add: ex_load_ex_sheet ex_cell_datetime_def ex_cell_numeric_def)
qed

section \<open>Properties of the filter engine\<close>

text \<open>
  Claim C4. For every frame and every choice of the eight filter arguments, the rows of
  the result of \<open>apply_filters\<close> are a subsequence of the rows of the input: each
  output row is an input row, none is taken more often than it occurs, and the order
  is kept. The columns are unchanged.
\<close>

theorem apply_filters_subseq:
  "subseq (rows (apply_filters df data_inicio data_fim ano_selecionado
                   categorias_selecionadas categorias tipos_doc nomes_tarefa
                   tarefas_consolidadas)) (rows df)
   \<and> columns (apply_filters df data_inicio data_fim ano_selecionado
                 categorias_selecionadas categorias tipos_doc nomes_tarefa
                 tarefas_consolidadas) = columns df"
  by (simp add: apply_filters_mask rows_mask columns_mask)

text \<open>
  Claim C1 as stated fails: with every multiselect empty, the loaded example still has
  rows after filtering.
\<close>

theorem empty_selection_excludes_all_counterexample:
  "rows (apply_filters ex_df (2023, 1, 1) (2024, 12, 31) Todos [] [] [] [] []) \<noteq> []"
  using ex_filtrado_eq by (simp add: ex_filtrado_def)

text \<open>
  Claim C1, as amended. An empty selection in a multiselect does not exclude every row:
  the guard \<open>if values and ...\<close> skips the filter. For each of the five multiselect
  filters, \<open>apply_filters\<close> with the empty selection gives the same frame as
  \<open>apply_filters\<close> with every value of that column selected, the other arguments
  being equal.
\<close>

theorem empty_selection_selects_all:
  "apply_filters df data_inicio data_fim ano_selecionado
       [] categorias tipos_doc nomes_tarefa tarefas_consolidadas
     = apply_filters df data_inicio data_fim ano_selecionado
         (all_selected ''CATEGORIA_SCANIA'' CATEGORIA_SCANIA df)
         categorias tipos_doc nomes_tarefa tarefas_consolidadas
   \<and> apply_filters df data_inicio data_fim ano_selecionado
         categorias_selecionadas [] tipos_doc nomes_tarefa tarefas_consolidadas
     = apply_filters df data_inicio data_fim ano_selecionado
         categorias_selecionadas (all_selected ''CATEGORIA'' CATEGORIA df)
         tipos_doc nomes_tarefa tarefas_consolidadas
   \<and> apply_filters df data_inicio data_fim ano_selecionado
         categorias_selecionadas categorias [] nomes_tarefa tarefas_consolidadas
     = apply_filters df data_inicio data_fim ano_selecionado
         categorias_selecionadas categorias (all_selected ''TIPO_DOC'' TIPO_DOC df)
         nomes_tarefa tarefas_consolidadas
   \<and> apply_filters df data_inicio data_fim ano_selecionado
         categorias_selecionadas categorias tipos_doc [] tarefas_consolidadas
     = apply_filters df data_inicio data_fim ano_selecionado
         categorias_selecionadas categorias tipos_doc
         (all_selected ''NOME_TAREFA'' NOME_TAREFA df) tarefas_consolidadas
   \<and> apply_filters df data_inicio data_fim ano_selecionado
         categorias_selecionadas categorias tipos_doc nomes_tarefa []
     = apply_filters df data_inicio data_fim ano_selecionado
         categorias_selecionadas categorias tipos_doc nomes_tarefa
         (all_selected ''TAREFA_CONSOLIDADA'' TAREFA_CONSOLIDADA df)"
  unfolding apply_filters_mask
  by (intro conjI; rule mask_cong) (simp_all add: isin_all_selected)

text \<open>
  Claim C2 as stated fails: the loaded example has a row without a due date, and the
  filter with the full date range and everything selected drops it.
\<close>

theorem apply_filters_identity_counterexample:
  "date_limits (2026, 1, 1) ex_df = Some ((2023, 1, 10), (2024, 1, 15))
   \<and> apply_filters ex_df (2023, 1, 10) (2024, 1, 15) Todos
       (all_selected ''CATEGORIA_SCANIA'' CATEGORIA_SCANIA ex_df)
       (all_selected ''CATEGORIA'' CATEGORIA ex_df)
       (all_selected ''TIPO_DOC'' TIPO_DOC ex_df)
       (all_selected ''NOME_TAREFA'' NOME_TAREFA ex_df)
       (all_selected ''TAREFA_CONSOLIDADA'' TAREFA_CONSOLIDADA ex_df) \<noteq> ex_df"
proof -
  let ?r = "ex_loaded (Some ((2022, 12, 2), 0)) None (Some 7)
        (Some ''NORTE'') (Some ''MANUTENCAO'') (Some ''PECAS'')"
  let ?out = "apply_filters ex_df (2023, 1, 10) (2024, 1, 15) Todos
       (all_selected ''CATEGORIA_SCANIA'' CATEGORIA_SCANIA ex_df)
       (all_selected ''CATEGORIA'' CATEGORIA ex_df)
       (all_selected ''TIPO_DOC'' TIPO_DOC ex_df)
       (all_selected ''NOME_TAREFA'' NOME_TAREFA ex_df)
       (all_selected ''TAREFA_CONSOLIDADA'' TAREFA_CONSOLIDADA ex_df)"
  have l: "date_limits (2026, 1, 1) ex_df = Some ((2023, 1, 10), (2024, 1, 15))"
    by (simp add: ex_df_eq date_limits_def ex_has_column ex_frame_empty series_min_def
          series_max_def ex_loaded_sel dt_date_def min_def max_def)
  have i: "?r \<in> set (rows ex_df)"
    by (simp add: ex_df_eq)
  have "has_column ''DATA_VENCIMENTO'' ex_df"
    by (simp add: ex_df_eq ex_has_column)
  moreover have "DATA_VENCIMENTO ?r = None"
    by (simp add: ex_loaded_sel)
  ultimately have "?r \<notin> set (rows ?out)"
    by (rule apply_filters_drops_NaT)
  with i have "?out \<noteq> ex_df"
    by auto
  with l show ?thesis
    by simp
qed

text \<open>
  Claim C2, as amended. For a frame in which every row has a due date (no NaT), the
  date limits computed by \<open>create_filters\<close> exist, and \<open>apply_filters\<close> with
  these limits, the year \<open>Todos\<close> and every value of the five multiselect columns
  selected returns the frame unchanged.
\<close>

theorem apply_filters_identity:
  assumes "\<forall>r\<in>set (rows df). has_column ''DATA_VENCIMENTO'' df \<longrightarrow> DATA_VENCIMENTO r \<noteq> None"
  shows "\<exists>lo hi. date_limits today df = Some (lo, hi)
           \<and> apply_filters df lo hi Todos
               (all_selected ''CATEGORIA_SCANIA'' CATEGORIA_SCANIA df)
               (all_selected ''CATEGORIA'' CATEGORIA df)
               (all_selected ''TIPO_DOC'' TIPO_DOC df)
               (all_selected ''NOME_TAREFA'' NOME_TAREFA df)
               (all_selected ''TAREFA_CONSOLIDADA'' TAREFA_CONSOLIDADA df) = df"
proof (cases "has_column ''DATA_VENCIMENTO'' df \<and> \<not> frame_empty df")
  case True
  with assms obtain lo hi where l: "date_limits today df = Some (lo, hi)"
    and d: "\<forall>r\<in>set (rows df). in_date_range lo hi (DATA_VENCIMENTO r)"
    using date_limits_cover [of df today] by blast
  have "apply_filters df lo hi Todos
               (all_selected ''CATEGORIA_SCANIA'' CATEGORIA_SCANIA df)
               (all_selected ''CATEGORIA'' CATEGORIA df)
               (all_selected ''TIPO_DOC'' TIPO_DOC df)
               (all_selected ''NOME_TAREFA'' NOME_TAREFA df)
               (all_selected ''TAREFA_CONSOLIDADA'' TAREFA_CONSOLIDADA df) = df"
    unfolding apply_filters_mask
    by (rule mask_id) (simp add: d isin_all_selected)
  with l show ?thesis
    by blast
next
  case False
  then have l: "date_limits today df = Some ((2024, 1, 1), today)"
    by (auto simp: date_limits_def)
  have "apply_filters df (2024, 1, 1) today Todos
               (all_selected ''CATEGORIA_SCANIA'' CATEGORIA_SCANIA df)
               (all_selected ''CATEGORIA'' CATEGORIA df)
               (all_selected ''TIPO_DOC'' TIPO_DOC df)
               (all_selected ''NOME_TAREFA'' NOME_TAREFA df)
               (all_selected ''TAREFA_CONSOLIDADA'' TAREFA_CONSOLIDADA df) = df"
    unfolding apply_filters_mask
    by (rule mask_id) (use False in \<open>auto simp: isin_all_selected\<close>)
  with l show ?thesis
    by blast
qed

theorem apply_filters_identity_witness:
  "date_limits (2026, 1, 1) ex_df_ok = Some ((2023, 1, 10), (2024, 1, 15))
   \<and> apply_filters ex_df_ok (2023, 1, 10) (2024, 1, 15) Todos
       (all_selected ''CATEGORIA_SCANIA'' CATEGORIA_SCANIA ex_df_ok)
       (all_selected ''CATEGORIA'' CATEGORIA ex_df_ok)
       (all_selected ''TIPO_DOC'' TIPO_DOC ex_df_ok)
       (all_selected ''NOME_TAREFA'' NOME_TAREFA ex_df_ok)
       (all_selected ''TAREFA_CONSOLIDADA'' TAREFA_CONSOLIDADA ex_df_ok) = ex_df_ok"
proof -
  have h: "\<forall>r\<in>set (rows ex_df_ok).
             has_column ''DATA_VENCIMENTO'' ex_df_ok \<longrightarrow> DATA_VENCIMENTO r \<noteq> None"
    by (simp add: ex_df_ok_eq ex_loaded_sel)
  have l: "date_limits (2026, 1, 1) ex_df_ok = Some ((2023, 1, 10), (2024, 1, 15))"
    by (simp add: ex_df_ok_eq date_limits_def ex_has_column ex_frame_empty series_min_def
          series_max_def ex_loaded_sel dt_date_def min_def max_def)
  from apply_filters_identity [OF h, of "(2026, 1, 1)"] l show ?thesis
    by auto
qed

section \<open>Properties of the aggregate views\<close>

text \<open>
  Claim C5. Whenever \<open>create_tarefa_consolidada_chart\<close> computes its aggregate, the
  aggregate has at most 15 entries, however many consolidated tasks the frame holds and
  however the sums round.
\<close>

theorem df_tarefa_at_most_15:
  "df_tarefa soma df = Some agg \<Longrightarrow> length agg \<le> 15"
  by (auto simp: df_tarefa_def split: if_splits)

theorem df_tarefa_at_most_15_witness:
  "length (rows ex_df16) = 16
   \<and> distinct (map TAREFA_CONSOLIDADA (rows ex_df16))
   \<and> df_tarefa sum_list ex_df16 = Some (rev (tl ex_tarefas))
   \<and> length (rev (tl ex_tarefas)) \<le> 15"
proof -
  have a: "length (rows ex_df16) = 16"
    by (simp add: ex_df16_eq ex_tarefas_def)
  have b: "distinct (map TAREFA_CONSOLIDADA (rows ex_df16))"
    by (simp add: ex_df16_eq ex_tarefas_def ex_loaded_sel)
  have c: "df_tarefa sum_list ex_df16 = Some (rev (tl ex_tarefas))"
    by (simp add: ex_df16_eq df_tarefa_def ex_tarefas_def ex_eval)
  from a b c df_tarefa_at_most_15 [OF c] show ?thesis
    by simp
qed

text \<open>
  Claim C3 as stated fails: the filtered example has a row of amount 50 without a
  category; the aggregate by category sums to 300, the frame to 350. The amounts are
  small integers, on which the float64 sums of pandas are exact.
\<close>

theorem df_categoria_total_counterexample:
  "df_categoria sum_list ex_filtrado = Some [(''MANUTENCAO'', 100), (''SINISTRO'', 200)]
   \<and> sum_list (map snd [(''MANUTENCAO'', 100 :: rat), (''SINISTRO'', 200)]) = 300
   \<and> custo_total sum_list ex_filtrado = 350"
  by (simp add: ex_filtrado_eq df_categoria_def ex_eval)

text \<open>
  Claim C3, as amended. Whenever \<open>create_charts\<close> computes the aggregate by
  CATEGORIA, the aggregate has exactly one entry for each category present in the
  frame, and the value of an entry is the sum, as pandas computes it, of VALOR over
  exactly the rows of that category; rows with a missing category are in no entry.
  When the sum of every group is exact, the sum of the values of the aggregate equals
  the sum of VALOR over the rows that have a category; when moreover the sum over the
  whole frame is exact and no row lacks its category, it equals the total of the frame.
  Nothing is claimed about the equality of sums that round.
\<close>

theorem df_categoria_total:
  assumes "df_categoria soma df = Some agg"
  shows "distinct (map fst agg)
         \<and> set (map fst agg) = {k. \<exists>r\<in>set (rows df). CATEGORIA r = Some k}
         \<and> agg = map (\<lambda>k. (k, soma (List.map_filter VALOR
                                        (filter (\<lambda>r. CATEGORIA r = Some k) (rows df)))))
                    (map fst agg)
         \<and> ((\<forall>k\<in>set (map fst agg).
                 soma (List.map_filter VALOR (filter (\<lambda>r. CATEGORIA r = Some k) (rows df)))
                   = sum_list (List.map_filter VALOR
                                 (filter (\<lambda>r. CATEGORIA r = Some k) (rows df))))
              \<longrightarrow> sum_list (map snd agg)
                    = sum_list (List.map_filter VALOR
                                  (filter (\<lambda>r. CATEGORIA r \<noteq> None) (rows df)))
                  \<and> ((\<forall>r\<in>set (rows df). CATEGORIA r \<noteq> None)
                       \<and> custo_total soma df = sum_list (List.map_filter VALOR (rows df))
                     \<longrightarrow> sum_list (map snd agg) = custo_total soma df))"
proof -
  let ?vals = "\<lambda>k. List.map_filter VALOR (filter (\<lambda>r. CATEGORIA r = Some k) (rows df))"
  from assms have agg: "agg = groupby_sum soma CATEGORIA (rows df)"
    by (auto simp: df_categoria_def split: if_splits)
  have 1: "distinct (map fst agg)"
    by (simp add: agg map_fst_groupby_sum)
  have 2: "set (map fst agg) = {k. \<exists>r\<in>set (rows df). CATEGORIA r = Some k}"
    by (simp add: agg map_fst_groupby_sum set_map_filter)
  have 3: "agg = map (\<lambda>k. (k, soma (?vals k))) (map fst agg)"
    unfolding agg by (rule groupby_sum_entries)
  have 4: "sum_list (map snd agg)
             = sum_list (List.map_filter VALOR
                           (filter (\<lambda>r. CATEGORIA r \<noteq> None) (rows df)))"
    if exact: "\<forall>k\<in>set (map fst agg). soma (?vals k) = sum_list (?vals k)"
  proof -
    have k: "map fst agg = map fst (groupby_sum sum_list CATEGORIA (rows df))"
      by (simp add: agg map_fst_groupby_sum)
    have "map snd agg = map (\<lambda>k. soma (?vals k)) (map fst agg)"
      by (subst 3) (simp add: o_def)
    also have "\<dots> = map (\<lambda>k. sum_list (?vals k)) (map fst agg)"
      using exact by (intro map_cong) auto
    also have "\<dots> = map snd (groupby_sum sum_list CATEGORIA (rows df))"
      unfolding k by (subst (2) groupby_sum_entries) (simp add: o_def)
    finally show ?thesis
      by (simp add: sum_groupby_sum)
  qed
  have 5: "filter (\<lambda>r. CATEGORIA r \<noteq> None) (rows df) = rows df"
    if "\<forall>r\<in>set (rows df). CATEGORIA r \<noteq> None"
    using that by (simp add: filter_id_conv)
  from 1 2 3 4 5 show ?thesis
    by (auto simp: custo_total_def)
qed

theorem df_categoria_total_witness:
  "df_categoria sum_list ex_df16 = Some [(''MANUTENCAO'', 136)]
   \<and> list_all (\<lambda>r. CATEGORIA r \<noteq> None) (rows ex_df16)
   \<and> sum_list (map snd [(''MANUTENCAO'', 136 :: rat)]) = custo_total sum_list ex_df16
   \<and> custo_total sum_list ex_df16 = 136"
proof -
  have a: "df_categoria sum_list ex_df16 = Some [(''MANUTENCAO'', 136)]"
    by (simp add: ex_df16_eq df_categoria_def ex_tarefas_def ex_eval)
  have b: "\<forall>r\<in>set (rows ex_df16). CATEGORIA r \<noteq> None"
    by (simp add: ex_df16_eq ex_tarefas_def ex_loaded_sel)
  have c: "custo_total sum_list ex_df16 = 136"
    by (simp add: ex_df16_eq ex_tarefas_def ex_eval)
  from df_categoria_total [OF a] a b c show ?thesis
    by (simp add: list_all_iff)
qed

text \<open>
  Claim C6. Whenever they are computed, the monthly aggregate is in ascending order of
  (year, month), the aggregate by CATEGORIA\_SCANIA is in ascending order of value, and
  the aggregate by consolidated task is in descending order of value.
\<close>

theorem aggregate_sort_orders:
  "(df_mensal soma df = Inr (Some mensal)
      \<longrightarrow> sorted (map (\<lambda>((mes_ano, mes_nome, ano, mes), v). (ano, mes)) mensal))
   \<and> (df_concessionaria soma df = Some concessionaria \<longrightarrow> sorted (map snd concessionaria))
   \<and> (df_tarefa soma df = Some tarefa \<longrightarrow> sorted_wrt (\<lambda>a b. b \<le> a) (map snd tarefa))"
proof (intro conjI impI)
  assume "df_mensal soma df = Inr (Some mensal)"
  then have "mensal = sort_key ano_mes (groupby_sum soma chave_mensal (rows df))"
    by (auto simp: df_mensal_def split: if_splits list.splits)
  then have "sorted (map ano_mes mensal)"
    by simp
  moreover have "ano_mes = (\<lambda>((mes_ano, mes_nome, ano, mes), v). (ano, mes))"
    by (auto simp: ano_mes_def fun_eq_iff)
  ultimately show "sorted (map (\<lambda>((mes_ano, mes_nome, ano, mes), v). (ano, mes)) mensal)"
    by simp
next
  assume "df_concessionaria soma df = Some concessionaria"
  then have "concessionaria = sort_values_asc (groupby_sum soma CATEGORIA_SCANIA (rows df))"
    by (auto simp: df_concessionaria_def split: if_splits)
  then show "sorted (map snd concessionaria)"
    by (simp add: sorted_sort_values_asc)
next
  assume "df_tarefa soma df = Some tarefa"
  then have "tarefa = take 15 (sort_values_desc (groupby_sum soma TAREFA_CONSOLIDADA (rows df)))"
    by (auto simp: df_tarefa_def split: if_splits)
  then show "sorted_wrt (\<lambda>a b. b \<le> a) (map snd tarefa)"
    using sorted_sort_values_desc [of "groupby_sum soma TAREFA_CONSOLIDADA (rows df)"]
    by (simp add: take_map [symmetric])
qed

theorem aggregate_sort_orders_witness:
  "df_mensal sum_list ex_filtrado = Inr (Some
      [((''2023-01'', ''Jan/2023'', 2023, 1), 100),
       ((''2023-02'', ''Feb/2023'', 2023, 2), 200),
       ((''2024-01'', ''Jan/2024'', 2024, 1), 50)])
   \<and> sorted [(2023, 1), (2023, 2), (2024, 1 :: nat) :: nat \<times> nat]
   \<and> df_concessionaria sum_list ex_filtrado = Some [(''NORTE'', 100), (''SUL'', 250)]
   \<and> sorted [100, 250 :: rat]
   \<and> df_tarefa sum_list ex_filtrado
       = Some [(''FUNILARIA'', 200), (''PECAS'', 100), (''MOTOR'', 50)]
   \<and> sorted_wrt (\<lambda>a b. b \<le> a) [200, 100, 50 :: rat]"
proof -
  have m: "df_mensal sum_list ex_filtrado = Inr (Some
      [((''2023-01'', ''Jan/2023'', 2023, 1), 100),
       ((''2023-02'', ''Feb/2023'', 2023, 2), 200),
       ((''2024-01'', ''Jan/2024'', 2024, 1), 50)])"
    by (simp add: ex_filtrado_eq df_mensal_def ex_eval)
  have c: "df_concessionaria sum_list ex_filtrado = Some [(''NORTE'', 100), (''SUL'', 250)]"
    by (simp add: ex_filtrado_eq df_concessionaria_def ex_eval)
  have t: "df_tarefa sum_list ex_filtrado
             = Some [(''FUNILARIA'', 200), (''PECAS'', 100), (''MOTOR'', 50)]"
    by (simp add: ex_filtrado_eq df_tarefa_def ex_eval)
  from aggregate_sort_orders [of sum_list ex_filtrado
      "[((''2023-01'', ''Jan/2023'', 2023, 1), 100),
       ((''2023-02'', ''Feb/2023'', 2023, 2), 200),
       ((''2024-01'', ''Jan/2024'', 2024, 1), 50)]"
      "[(''NORTE'', 100), (''SUL'', 250)]"
      "[(''FUNILARIA'', 200), (''PECAS'', 100), (''MOTOR'', 50)]"] m c t
  show ?thesis
    by simp
qed

end
